theory Spec2Isabelle
  imports Complex_Main "HOL-Library.Char_ord" "HOL-Library.List_Lexorder"
begin

section \<open>Python values, dictionaries and exceptions\<close>

text \<open>
  The engine works on plain Python dictionaries whose values are numbers, strings,
  \<^verbatim>\<open>None\<close> or lists of strings (the sector list of a filter). Python's \<^verbatim>\<open>int\<close> and
  \<^verbatim>\<open>float\<close> are both read as real numbers: rounding, signed zeros, \<^verbatim>\<open>nan\<close> and \<^verbatim>\<open>inf\<close>
  are outside the model. An exception is a value \<open>Inl e\<close> of the result type.
\<close>

datatype error = TypeError | ValueError | KeyError | ZeroDivisionError | IndexError
  | RetrievalError

datatype pyval = PNone | PNum real | PStr string | PStrList "string list"

text \<open>A dictionary literal, key by key; a key that is absent has no pair.\<close>

type_synonym pydict = "(string \<times> pyval) list"

definition bindE :: "error + 'a \<Rightarrow> ('a \<Rightarrow> error + 'b) \<Rightarrow> error + 'b" where
  "bindE m f = (case m of Inl e \<Rightarrow> Inl e | Inr x \<Rightarrow> f x)"

text \<open>\<^verbatim>\<open>d.get(k, default)\<close> and \<^verbatim>\<open>d.get(k)\<close>: the default stands in for an absent key
  only, a key bound to \<^verbatim>\<open>None\<close> yields \<^verbatim>\<open>None\<close>.\<close>

definition dict_get_default :: "pydict \<Rightarrow> string \<Rightarrow> pyval \<Rightarrow> pyval" where
  "dict_get_default d k dflt = (case map_of d k of None \<Rightarrow> dflt | Some v \<Rightarrow> v)"

definition dict_get :: "pydict \<Rightarrow> string \<Rightarrow> pyval" where
  "dict_get d k = dict_get_default d k PNone"

text \<open>Truth value of an object in a condition (\<^verbatim>\<open>if x:\<close>, \<^verbatim>\<open>x or y\<close>, \<^verbatim>\<open>x and y\<close>).\<close>

fun truthy :: "pyval \<Rightarrow> bool" where
  "truthy PNone = False"
| "truthy (PNum x) = (x \<noteq> 0)"
| "truthy (PStr s) = (s \<noteq> [])"
| "truthy (PStrList l) = (l \<noteq> [])"

definition py_or :: "pyval \<Rightarrow> pyval \<Rightarrow> pyval" where
  "py_or a b = (if truthy a then a else b)"

text \<open>An ordering comparison of a value with a numeric literal raises \<^verbatim>\<open>TypeError\<close>
  unless the value is a number.\<close>

fun num_of :: "pyval \<Rightarrow> error + real" where
  "num_of (PNum x) = Inr x"
| "num_of v = Inl TypeError"

text \<open>\<^verbatim>\<open>float(s.replace('%', '')) / 100\<close>. Python's built-in \<^verbatim>\<open>float\<close> on strings is a
  parameter \<open>pyfloat\<close>; \<open>None\<close> is its \<^verbatim>\<open>ValueError\<close>.\<close>

definition parse_percent :: "(string \<Rightarrow> real option) \<Rightarrow> string \<Rightarrow> error + real" where
  "parse_percent pyfloat s =
     (case pyfloat (removeAll (CHR ''%'') s) of
        None \<Rightarrow> Inl ValueError
      | Some x \<Rightarrow> Inr (x / 100))"

section \<open>Dividend history\<close>

text \<open>The dividend history is a data frame with one row per dividend; a growth rate that
  is null (NaN) is \<open>None\<close>. Dates are integers (microseconds since the epoch).\<close>

record div_row =
  ex_dividend_date :: int
  dividend_amount :: real
  dividend_growth_rate :: "real option"

text \<open>\<^verbatim>\<open>Series.dropna()\<close>: the non-null entries, in row order.\<close>

fun dropna :: "'a option list \<Rightarrow> 'a list" where
  "dropna [] = []"
| "dropna (None # xs) = dropna xs"
| "dropna (Some x # xs) = x # dropna xs"

section \<open>Health score (\<^verbatim>\<open>DividendHealthCalculator.calculate_health_score\<close>)\<close>

text \<open>1. Dividend yield score (0-20 points).\<close>

definition yield_score :: "(string \<Rightarrow> real option) \<Rightarrow> pydict \<Rightarrow> error + real" where
  "yield_score pyfloat stock_data =
     (let dividend_yield = py_or (dict_get_default stock_data ''dividend_yield'' (PNum 0)) (PNum 0)
      in bindE (case dividend_yield of
                  PStr s \<Rightarrow> parse_percent pyfloat s
                | v \<Rightarrow> num_of v)
           (\<lambda>y. Inr (if 0.02 \<le> y \<and> y \<le> 0.06 then 20
                     else if 0.01 \<le> y \<and> y < 0.02 then 15
                     else if 0.06 < y \<and> y \<le> 0.08 then 15
                     else if y > 0.08 then 5
                     else 0)))"

text \<open>2. Payout ratio score (0-25 points).\<close>

definition payout_score ::
  "(string \<Rightarrow> real option) \<Rightarrow> pydict \<Rightarrow> pydict \<Rightarrow> error + real" where
  "payout_score pyfloat stock_data financial_metrics =
     (let payout_ratio = py_or (dict_get stock_data ''payout_ratio'')
                               (dict_get financial_metrics ''payout_ratio'')
      in if truthy payout_ratio then
           bindE (case payout_ratio of
                    PStr s \<Rightarrow> parse_percent pyfloat s
                  | v \<Rightarrow> num_of v)
             (\<lambda>p. Inr (if 0.3 \<le> p \<and> p \<le> 0.6 then 25
                       else if 0.2 \<le> p \<and> p < 0.3 then 20
                       else if 0.6 < p \<and> p \<le> 0.8 then 15
                       else if p > 0.8 then 5
                       else 0))
         else Inr 0)"

text \<open>3. Dividend growth score (0-20 points).\<close>

definition growth_score :: "div_row list \<Rightarrow> real" where
  "growth_score dividend_data =
     (if dividend_data \<noteq> [] then
        (let growth_rates = dropna (map dividend_growth_rate dividend_data)
         in if length growth_rates \<ge> 3 then
              (let positive_growth_years = length (filter (\<lambda>r. r > 0) growth_rates);
                   growth_consistency = real positive_growth_years / real (length growth_rates)
               in growth_consistency * 20)
            else 0)
      else 0)"

text \<open>4. Financial health score (0-20 points). Each condition is
  \<^verbatim>\<open>x and lo <= x\<close>: the comparison is evaluated only for a truthy \<^verbatim>\<open>x\<close>.\<close>

definition financial_health :: "pydict \<Rightarrow> error + real" where
  "financial_health financial_metrics =
     (let pe_ratio = dict_get financial_metrics ''pe_ratio'';
          debt_to_equity = dict_get financial_metrics ''debt_to_equity'';
          roe = dict_get financial_metrics ''return_on_equity''
      in bindE (if truthy pe_ratio
                then bindE (num_of pe_ratio) (\<lambda>x. Inr (10 \<le> x \<and> x \<le> 25))
                else Inr False) (\<lambda>c1.
         bindE (if truthy debt_to_equity
                then bindE (num_of debt_to_equity) (\<lambda>x. Inr (x \<le> 0.5))
                else Inr False) (\<lambda>c2.
         bindE (if truthy roe
                then bindE (num_of roe) (\<lambda>x. Inr (x \<ge> 0.15))
                else Inr False) (\<lambda>c3.
         Inr ((if c1 then 7 else 0) + (if c2 then 7 else 0) + (if c3 then 6 else 0))))))"

text \<open>5. Coverage ratio score (0-15 points).\<close>

definition coverage_score :: "pydict \<Rightarrow> error + real" where
  "coverage_score financial_metrics =
     (let coverage_ratio = dict_get financial_metrics ''dividend_coverage_ratio''
      in if truthy coverage_ratio then
           bindE (num_of coverage_ratio)
             (\<lambda>c. Inr (if c \<ge> 2.0 then 15
                       else if c \<ge> 1.5 then 12
                       else if c \<ge> 1.2 then 8
                       else 3))
         else Inr 0)"

text \<open>The score starts at 0, the five parts are added in the source's order (the first
  exception wins), and the sum is capped at \<^verbatim>\<open>max_score = 100\<close>.\<close>

definition calculate_health_score ::
  "(string \<Rightarrow> real option) \<Rightarrow> pydict \<Rightarrow> pydict \<Rightarrow> div_row list \<Rightarrow> error + real" where
  "calculate_health_score pyfloat stock_data financial_metrics dividend_data =
     bindE (yield_score pyfloat stock_data) (\<lambda>s1.
     bindE (payout_score pyfloat stock_data financial_metrics) (\<lambda>s2.
     bindE (financial_health financial_metrics) (\<lambda>s4.
     bindE (coverage_score financial_metrics) (\<lambda>s5.
     Inr (min (0 + s1 + s2 + growth_score dividend_data + s4 + s5) 100)))))"

section \<open>Derived dividend-history fields\<close>

text \<open>\<^verbatim>\<open>_count_growth_years\<close>: the loop over the reversed non-null growth rates, leaving
  at the first rate that is not positive.\<close>

fun growth_loop :: "real list \<Rightarrow> nat \<Rightarrow> nat" where
  "growth_loop [] consecutive_growth = consecutive_growth"
| "growth_loop (rate # rates) consecutive_growth =
     (if rate > 0 then growth_loop rates (consecutive_growth + 1) else consecutive_growth)"

definition count_growth_years :: "div_row list \<Rightarrow> nat" where
  "count_growth_years dividend_data =
     (if dividend_data = [] then 0
      else growth_loop (rev (dropna (map dividend_growth_rate dividend_data))) 0)"

text \<open>\<^verbatim>\<open>_estimate_next_ex_dividend\<close>. The reading of the clock, \<^verbatim>\<open>datetime.now()\<close>, is the
  parameter \<open>now\<close>, one instant for all the readings of a scan. Only the dates of the two latest rows are read, so the order of rows
  with equal dates plays no part.\<close>

definition estimate_next_ex_dividend :: "int \<Rightarrow> div_row list \<Rightarrow> int option" where
  "estimate_next_ex_dividend now dividend_data =
     (if dividend_data = [] then None
      else (case rev (sort (map ex_dividend_date dividend_data)) of
              last_date # prev_date # _ \<Rightarrow>
                (let interval = last_date - prev_date;
                     estimated_next = last_date + interval
                 in if estimated_next > now then Some estimated_next else None)
            | _ \<Rightarrow> None))"

text \<open>\<^verbatim>\<open>_get_last_dividend_amount\<close>: the amount of the first row after sorting by date,
  latest first. Among rows sharing the latest date the model takes the earliest row.\<close>

definition get_last_dividend_amount :: "div_row list \<Rightarrow> real option" where
  "get_last_dividend_amount dividend_data =
     (if dividend_data = [] then None
      else (case sort_key (\<lambda>r. - ex_dividend_date r) dividend_data of
              r # _ \<Rightarrow> Some (dividend_amount r)
            | [] \<Rightarrow> None))"

definition get_avg_dividend_growth :: "div_row list \<Rightarrow> real option" where
  "get_avg_dividend_growth dividend_data =
     (if dividend_data = [] then None
      else (let growth_rates = dropna (map dividend_growth_rate dividend_data)
            in if length growth_rates > 0
               then Some (sum_list growth_rates / real (length growth_rates))
               else None))"

section \<open>Scan filters\<close>

datatype ScanCriteria =
    MIN_DIVIDEND_YIELD | MAX_DIVIDEND_YIELD | MIN_MARKET_CAP | MAX_MARKET_CAP
  | MIN_YEARS_DIVIDEND_GROWTH | MAX_PAYOUT_RATIO | MIN_DIVIDEND_COVERAGE | SECTORS
  | MIN_PE_RATIO | MAX_PE_RATIO | MIN_ROE | MAX_DEBT_TO_EQUITY | EX_DIVIDEND_WITHIN_DAYS

text \<open>A dataclass does not enforce the annotation of a field: the criteria of a filter
  is either a member of the enumeration or some other object (\<open>NonMember\<close>), which is
  equal to no member.\<close>

datatype criteria_value = Member ScanCriteria | NonMember pyval

record ScanFilter =
  criteria :: criteria_value
  filter_value :: pyval
  operator :: string

record ScanConfiguration =
  config_name :: string
  filters :: "ScanFilter list"
  sort_by :: string
  sort_order :: string
  limit :: "int option"

text \<open>\<^verbatim>\<open>a >= b\<close> and \<^verbatim>\<open>a <= b\<close>: numbers with numbers, strings with strings and lists
  with lists (both lexicographic); any other pair raises \<^verbatim>\<open>TypeError\<close>.\<close>

fun py_ge :: "pyval \<Rightarrow> pyval \<Rightarrow> error + bool" where
  "py_ge (PNum a) (PNum b) = Inr (a \<ge> b)"
| "py_ge (PStr a) (PStr b) = Inr (a \<ge> b)"
| "py_ge (PStrList a) (PStrList b) = Inr (a \<ge> b)"
| "py_ge a b = Inl TypeError"

fun py_le :: "pyval \<Rightarrow> pyval \<Rightarrow> error + bool" where
  "py_le (PNum a) (PNum b) = Inr (a \<le> b)"
| "py_le (PStr a) (PStr b) = Inr (a \<le> b)"
| "py_le (PStrList a) (PStrList b) = Inr (a \<le> b)"
| "py_le a b = Inl TypeError"

text \<open>\<^verbatim>\<open>s in t\<close> for two strings: \<open>s\<close> occurs in \<open>t\<close> as a contiguous piece.\<close>

fun starts_with :: "string \<Rightarrow> string \<Rightarrow> bool" where
  "starts_with t [] = True"
| "starts_with [] (c # s) = False"
| "starts_with (d # t) (c # s) = (d = c \<and> starts_with t s)"

fun str_contains :: "string \<Rightarrow> string \<Rightarrow> bool" where
  "str_contains [] s = (s = [])"
| "str_contains (d # t) s = (starts_with (d # t) s \<or> str_contains t s)"

text \<open>\<^verbatim>\<open>x in container\<close>: membership by equality in a list, substring test in a string
  (\<^verbatim>\<open>TypeError\<close> unless \<^verbatim>\<open>x\<close> is a string too), \<^verbatim>\<open>TypeError\<close> for a container that is
  a number or \<^verbatim>\<open>None\<close>.\<close>

fun py_in :: "pyval \<Rightarrow> pyval \<Rightarrow> error + bool" where
  "py_in (PStr s) (PStrList l) = Inr (s \<in> set l)"
| "py_in x (PStrList l) = Inr False"
| "py_in (PStr s) (PStr t) = Inr (str_contains t s)"
| "py_in x (PStr t) = Inl TypeError"
| "py_in x c = Inl TypeError"

text \<open>\<^verbatim>\<open>_get_filter_value\<close>. \<^verbatim>\<open>None\<close> is \<open>PNone\<close>; the day count of a
  \<^verbatim>\<open>timedelta\<close> is the floor of the difference over one day.\<close>

definition get_filter_value ::
  "(string \<Rightarrow> real option) \<Rightarrow> int \<Rightarrow> criteria_value \<Rightarrow> pydict \<Rightarrow> pydict \<Rightarrow> div_row list
     \<Rightarrow> error + pyval" where
  "get_filter_value pyfloat now crit stock_data financial_metrics dividend_data =
     (if crit = Member MIN_DIVIDEND_YIELD \<or> crit = Member MAX_DIVIDEND_YIELD then
        (case dict_get stock_data ''dividend_yield'' of
           PStr s \<Rightarrow> bindE (parse_percent pyfloat s) (\<lambda>x. Inr (PNum x))
         | yield_val \<Rightarrow> Inr yield_val)
      else if crit = Member MIN_MARKET_CAP \<or> crit = Member MAX_MARKET_CAP then
        Inr (dict_get stock_data ''market_cap'')
      else if crit = Member MAX_PAYOUT_RATIO then
        (case dict_get stock_data ''payout_ratio'' of
           PStr s \<Rightarrow> bindE (parse_percent pyfloat s) (\<lambda>x. Inr (PNum x))
         | payout \<Rightarrow> Inr payout)
      else if crit = Member MIN_DIVIDEND_COVERAGE then
        Inr (dict_get financial_metrics ''dividend_coverage_ratio'')
      else if crit = Member SECTORS then
        Inr (dict_get stock_data ''sector'')
      else if crit = Member MIN_PE_RATIO \<or> crit = Member MAX_PE_RATIO then
        Inr (dict_get financial_metrics ''pe_ratio'')
      else if crit = Member MIN_ROE then
        Inr (dict_get financial_metrics ''return_on_equity'')
      else if crit = Member MAX_DEBT_TO_EQUITY then
        Inr (dict_get financial_metrics ''debt_to_equity'')
      else if crit = Member MIN_YEARS_DIVIDEND_GROWTH then
        Inr (PNum (real (count_growth_years dividend_data)))
      else if crit = Member EX_DIVIDEND_WITHIN_DAYS then
        (case estimate_next_ex_dividend now dividend_data of
           Some next_ex_div \<Rightarrow>
             Inr (PNum (real_of_int ((next_ex_div - now) div 86400000000)))
         | None \<Rightarrow> Inr PNone)
      else Inr PNone)"

text \<open>\<^verbatim>\<open>_apply_filter\<close>.\<close>

definition apply_filter :: "pyval \<Rightarrow> pyval \<Rightarrow> string \<Rightarrow> error + bool" where
  "apply_filter actual_value fv op =
     (if actual_value = PNone then Inr False
      else if op = ''gte'' then py_ge actual_value fv
      else if op = ''lte'' then py_le actual_value fv
      else if op = ''eq'' then Inr (actual_value = fv)
      else if op = ''in'' then py_in actual_value fv
      else if op = ''not_in'' then bindE (py_in actual_value fv) (\<lambda>b. Inr (\<not> b))
      else Inr False)"

text \<open>\<^verbatim>\<open>_passes_filters\<close>: the loop over the filters, leaving with \<^verbatim>\<open>False\<close> at the first
  filter whose actual value is \<^verbatim>\<open>None\<close> or that does not hold.\<close>

fun passes_filters ::
  "(string \<Rightarrow> real option) \<Rightarrow> int \<Rightarrow> pydict \<Rightarrow> pydict \<Rightarrow> div_row list \<Rightarrow> ScanFilter list
     \<Rightarrow> error + bool" where
  "passes_filters pyfloat now stock_data financial_metrics dividend_data [] = Inr True"
| "passes_filters pyfloat now stock_data financial_metrics dividend_data (filter_obj # rest) =
     (case get_filter_value pyfloat now (criteria filter_obj) stock_data financial_metrics
             dividend_data of
        Inl e \<Rightarrow> Inl e
      | Inr actual_value \<Rightarrow>
          if actual_value = PNone then Inr False
          else (case apply_filter actual_value (filter_value filter_obj) (operator filter_obj) of
                  Inl e \<Rightarrow> Inl e
                | Inr ok \<Rightarrow>
                    if \<not> ok then Inr False
                    else passes_filters pyfloat now stock_data financial_metrics dividend_data
                           rest))"

section \<open>Scan engine (\<^verbatim>\<open>DividendScanner.scan_stocks\<close>)\<close>

text \<open>The data pipeline is the external collaborator; each retrieval may raise. Within
  one scan a retrieval is a function of the symbol. An empty dictionary of stock data is
  the falsy answer for a symbol without data.\<close>

record data_pipeline =
  get_stock_data :: "string \<Rightarrow> error + pydict"
  get_financial_metrics :: "string \<Rightarrow> error + pydict"
  get_dividend_history :: "string \<Rightarrow> error + div_row list"

text \<open>One row of the result, with the keys of the source's dictionary.\<close>

record scan_row =
  r_symbol :: string
  r_name :: pyval
  r_sector :: pyval
  r_current_price :: pyval
  r_market_cap :: pyval
  r_dividend_yield :: pyval
  r_payout_ratio :: pyval
  r_pe_ratio :: pyval
  r_debt_to_equity :: pyval
  r_return_on_equity :: pyval
  r_dividend_coverage_ratio :: pyval
  r_dividend_health_score :: real
  r_last_dividend_amount :: "real option"
  r_dividend_growth_rate :: "real option"
  r_years_of_growth :: nat
  r_next_ex_dividend_date :: "int option"
  r_scan_date :: int

text \<open>The body of the \<^verbatim>\<open>try\<close> block for one symbol: \<open>Inr None\<close> when the symbol is left
  out (\<^verbatim>\<open>continue\<close>, or the filters fail), \<open>Inr (Some row)\<close> when a row is appended,
  \<open>Inl e\<close> when an exception reaches the \<^verbatim>\<open>except\<close> clause.\<close>

definition scan_symbol ::
  "(string \<Rightarrow> real option) \<Rightarrow> int \<Rightarrow> data_pipeline \<Rightarrow> ScanFilter list \<Rightarrow> string
     \<Rightarrow> error + scan_row option" where
  "scan_symbol pyfloat now pipeline fs symbol =
     bindE (get_stock_data pipeline symbol) (\<lambda>stock_data.
     bindE (get_financial_metrics pipeline symbol) (\<lambda>financial_metrics.
     bindE (get_dividend_history pipeline symbol) (\<lambda>dividend_data.
     if stock_data = [] then Inr None
     else
       bindE (passes_filters pyfloat now stock_data financial_metrics dividend_data fs) (\<lambda>ok.
       if ok then
         bindE (calculate_health_score pyfloat stock_data financial_metrics dividend_data)
           (\<lambda>health_score.
             Inr (Some \<lparr>
               r_symbol = symbol,
               r_name = dict_get_default stock_data ''name'' (PStr []),
               r_sector = dict_get_default stock_data ''sector'' (PStr []),
               r_current_price = dict_get stock_data ''current_price'',
               r_market_cap = dict_get stock_data ''market_cap'',
               r_dividend_yield = dict_get stock_data ''dividend_yield'',
               r_payout_ratio = dict_get stock_data ''payout_ratio'',
               r_pe_ratio = dict_get financial_metrics ''pe_ratio'',
               r_debt_to_equity = dict_get financial_metrics ''debt_to_equity'',
               r_return_on_equity = dict_get financial_metrics ''return_on_equity'',
               r_dividend_coverage_ratio =
                 dict_get financial_metrics ''dividend_coverage_ratio'',
               r_dividend_health_score = health_score,
               r_last_dividend_amount = get_last_dividend_amount dividend_data,
               r_dividend_growth_rate = get_avg_dividend_growth dividend_data,
               r_years_of_growth = count_growth_years dividend_data,
               r_next_ex_dividend_date = estimate_next_ex_dividend now dividend_data,
               r_scan_date = now\<rparr>))
       else Inr None))))"

text \<open>The loop over the symbols: an exception for one symbol is caught and the loop goes
  on with the next symbol.\<close>

fun scan_loop ::
  "(string \<Rightarrow> real option) \<Rightarrow> int \<Rightarrow> data_pipeline \<Rightarrow> ScanFilter list \<Rightarrow> string list
     \<Rightarrow> scan_row list \<Rightarrow> scan_row list" where
  "scan_loop pyfloat now pipeline fs [] results = results"
| "scan_loop pyfloat now pipeline fs (symbol # symbols) results =
     (case scan_symbol pyfloat now pipeline fs symbol of
        Inr (Some result) \<Rightarrow> scan_loop pyfloat now pipeline fs symbols (results @ [result])
      | Inr None \<Rightarrow> scan_loop pyfloat now pipeline fs symbols results
      | Inl e \<Rightarrow> scan_loop pyfloat now pipeline fs symbols results)"

text \<open>\<^verbatim>\<open>df.head(n)\<close>: the first \<open>n\<close> rows, or all but the last \<open>-n\<close> rows for a negative
  \<open>n\<close>.\<close>

definition head :: "int \<Rightarrow> 'a list \<Rightarrow> 'a list" where
  "head n df = (if n \<ge> 0 then take (nat n) df else take (length df - nat (- n)) df)"

text \<open>\<^verbatim>\<open>scan_stocks\<close>. The sort of the data frame by a column, \<^verbatim>\<open>DataFrame.sort_values\<close> of
  pandas, is the parameter \<open>sort_values\<close>: it takes the column name, the \<^verbatim>\<open>ascending\<close>
  flag and the rows, and may raise. A limit that is \<^verbatim>\<open>None\<close> or 0 is falsy.\<close>

definition scan_stocks ::
  "(string \<Rightarrow> bool \<Rightarrow> scan_row list \<Rightarrow> error + scan_row list) \<Rightarrow> (string \<Rightarrow> real option)
     \<Rightarrow> int \<Rightarrow> data_pipeline \<Rightarrow> string list \<Rightarrow> ScanConfiguration
     \<Rightarrow> error + scan_row list" where
  "scan_stocks sort_values pyfloat now pipeline symbols config =
     (let results = scan_loop pyfloat now pipeline (filters config) symbols []
      in if results = [] then Inr []
         else
           (let ascending = (sort_order config = ''asc'')
            in bindE (sort_values (sort_by config) ascending results) (\<lambda>df.
                 Inr (case limit config of
                        None \<Rightarrow> df
                      | Some n \<Rightarrow> if n \<noteq> 0 then head n df else df))))"

section \<open>Risk assessor (\<^verbatim>\<open>DividendRiskManager\<close>)\<close>

text \<open>A holding of the portfolio. The keys read with \<^verbatim>\<open>holding[...]\<close> are fields; the
  keys read with \<^verbatim>\<open>holding.get(key, default)\<close> are optional, \<open>None\<close> for an absent
  key.\<close>

record holding =
  h_symbol :: string
  allocation_amount :: real
  allocation_percentage :: real
  predicted_yield :: "real option"
  sustainability :: "real option"

datatype risk_label = HIGH | MEDIUM | LOW

text \<open>The recommendations are formatted messages in the source; the model keeps what
  each message is about and the values it prints.\<close>

datatype recommendation =
    ReduceConcentration string real
  | AddHoldings nat
  | ReviewSustainability string real
  | InvestigateYield string real
  | WellBalanced

text \<open>The assessment. Where the source formats a number into a string
  (\<^verbatim>\<open>f"{x:.1f}%"\<close>), the field holds the number; the three-valued labels and the overall
  rating are \<open>risk_label\<close>s.\<close>

record risk_assessment =
  overall_risk :: risk_label
  risk_score :: real
  concentration_risk :: risk_label
  max_concentration :: real
  diversification_score :: real
  sustainability_risk :: risk_label
  avg_sustainability :: real
  yield_risk :: risk_label
  avg_yield :: real
  var_95 :: real
  var_99 :: real
  max_1day_loss_95 :: real
  max_1day_loss_99 :: real
  recommendations :: "recommendation list"

text \<open>\<^verbatim>\<open>max(xs)\<close> and \<^verbatim>\<open>min(xs)\<close> raise \<^verbatim>\<open>ValueError\<close> on an empty list.\<close>

fun py_max :: "real list \<Rightarrow> error + real" where
  "py_max [] = Inl ValueError"
| "py_max (x # xs) = Inr (fold (\<lambda>y m. if y > m then y else m) xs x)"

fun py_min :: "real list \<Rightarrow> error + real" where
  "py_min [] = Inl ValueError"
| "py_min (x # xs) = Inr (fold (\<lambda>y m. if y < m then y else m) xs x)"

text \<open>\<^verbatim>\<open>max(portfolio, key=lambda x: x['allocation_percentage'])\<close>: the first holding with
  the largest key.\<close>

fun max_by_allocation :: "holding list \<Rightarrow> error + holding" where
  "max_by_allocation [] = Inl ValueError"
| "max_by_allocation (h # hs) =
     Inr (fold (\<lambda>y m. if allocation_percentage y > allocation_percentage m then y else m) hs h)"

definition mean :: "real list \<Rightarrow> real" where
  "mean xs = sum_list xs / real (length xs)"

text \<open>\<^verbatim>\<open>int(x)\<close> of a float truncates towards zero.\<close>

definition py_int :: "real \<Rightarrow> int" where
  "py_int x = (if x \<ge> 0 then \<lfloor>x\<rfloor> else \<lceil>x\<rceil>)"

text \<open>\<^verbatim>\<open>xs[i]\<close>: a negative index counts from the end, an index out of range raises.\<close>

definition py_index :: "'a list \<Rightarrow> int \<Rightarrow> error + 'a" where
  "py_index xs i =
     (if 0 \<le> i \<and> i < int (length xs) then Inr (xs ! nat i)
      else if i < 0 \<and> - int (length xs) \<le> i then Inr (xs ! nat (int (length xs) + i))
      else Inl IndexError)"

text \<open>The random source. \<open>normal k sigma\<close> is the value that the \<open>k\<close>-th call of
  \<^verbatim>\<open>np.random.normal(0, sigma)\<close> returns for a scale \<open>sigma\<close> that is not negative; the
  number of calls made so far is threaded through the simulation as state. For a negative
  scale the call raises \<^verbatim>\<open>ValueError\<close>, which is a branch of the loop below.\<close>

type_synonym random_source = "nat \<Rightarrow> real \<Rightarrow> real"

text \<open>The inner loop of \<^verbatim>\<open>_calculate_var\<close> over the holdings, for one trial.\<close>

fun daily_return_loop ::
  "random_source \<Rightarrow> holding list \<Rightarrow> nat \<Rightarrow> real \<Rightarrow> error + real \<times> nat" where
  "daily_return_loop normal [] k daily_return = Inr (daily_return, k)"
| "daily_return_loop normal (h # rest) k daily_return =
     (let base_volatility = 0.02;
          yield_factor = (case predicted_yield h of None \<Rightarrow> 4 | Some y \<Rightarrow> y) / 100;
          volatility = base_volatility * (1 + yield_factor);
          sustainability_factor = (case sustainability h of None \<Rightarrow> 70 | Some s \<Rightarrow> s) / 100;
          volatility = volatility * (1.5 - sustainability_factor * 0.5);
          weight = allocation_percentage h / 100
      in if volatility < 0 then Inl ValueError
         else
           (let stock_return = normal k volatility
            in daily_return_loop normal rest (Suc k) (daily_return + weight * stock_return)))"

text \<open>The outer loop: \<open>n\<close> trials, the simulated portfolio values in trial order. An
  exception in a trial ends the simulation.\<close>

fun simulate ::
  "nat \<Rightarrow> random_source \<Rightarrow> holding list \<Rightarrow> real \<Rightarrow> nat \<Rightarrow> error + real list \<times> nat" where
  "simulate 0 normal portfolio total_investment k = Inr ([], k)"
| "simulate (Suc n) normal portfolio total_investment k =
     (case daily_return_loop normal portfolio k 0 of
        Inl e \<Rightarrow> Inl e
      | Inr (daily_return, k1) \<Rightarrow>
          (case simulate n normal portfolio total_investment k1 of
             Inl e \<Rightarrow> Inl e
           | Inr (portfolio_values, k2) \<Rightarrow>
               Inr (total_investment * (1 + daily_return) # portfolio_values, k2)))"

text \<open>\<^verbatim>\<open>_calculate_var\<close>: the value at risk and the state of the random source after
  the simulation.\<close>

definition calculate_var ::
  "random_source \<Rightarrow> nat \<Rightarrow> holding list \<Rightarrow> real \<Rightarrow> error + real \<times> nat" where
  "calculate_var normal k portfolio confidence =
     (let num_simulations = 10000;
          total_investment = sum_list (map allocation_amount portfolio)
      in bindE (simulate num_simulations normal portfolio total_investment k)
           (\<lambda>(portfolio_values, k').
              let sorted_values = sort portfolio_values;
                  var_index = py_int ((1 - confidence) * real num_simulations)
              in bindE (py_index sorted_values var_index) (\<lambda>v.
                   let var_value = total_investment - v
                   in Inr (max 0 var_value, k'))))"

text \<open>\<^verbatim>\<open>_generate_risk_recommendations\<close>; the four risk factors are its first
  arguments.\<close>

definition generate_risk_recommendations ::
  "real \<Rightarrow> real \<Rightarrow> real \<Rightarrow> real \<Rightarrow> holding list \<Rightarrow> error + recommendation list" where
  "generate_risk_recommendations f_concentration f_diversification f_sustainability f_yield
     portfolio =
     bindE (if f_concentration > 30
            then bindE (max_by_allocation portfolio) (\<lambda>max_holding.
                   Inr [ReduceConcentration (h_symbol max_holding)
                          (allocation_percentage max_holding)])
            else Inr []) (\<lambda>r1.
       let r2 = (if f_diversification > 20 then [AddHoldings (length portfolio)] else []);
           low_sustainability =
             filter (\<lambda>h. (case sustainability h of None \<Rightarrow> 70 | Some s \<Rightarrow> s) < 60) portfolio;
           r3 = (if f_sustainability > 20
                 then map (\<lambda>h. ReviewSustainability (h_symbol h)
                                 (case sustainability h of None \<Rightarrow> 0 | Some s \<Rightarrow> s))
                        (take 2 low_sustainability)
                 else []);
           high_yield =
             filter (\<lambda>h. (case predicted_yield h of None \<Rightarrow> 4 | Some y \<Rightarrow> y) > 10) portfolio;
           r4 = (if f_yield > 20
                 then map (\<lambda>h. InvestigateYield (h_symbol h)
                                 (case predicted_yield h of None \<Rightarrow> 0 | Some y \<Rightarrow> y))
                        (take 2 high_yield)
                 else []);
           recommendations = r1 @ r2 @ r3 @ r4
       in Inr (if recommendations = [] then [WellBalanced] else recommendations))"

text \<open>\<^verbatim>\<open>assess_portfolio_risk\<close>. The two values at risk come from two calls of
  \<^verbatim>\<open>_calculate_var\<close>, the second one continuing the random source where the first one
  left it; an exception of the simulation leaves the assessment. The division by
  \<^verbatim>\<open>total_value\<close> raises when the total is zero.\<close>

definition assess_portfolio_risk ::
  "random_source \<Rightarrow> nat \<Rightarrow> holding list \<Rightarrow> error + risk_assessment \<times> nat" where
  "assess_portfolio_risk normal k portfolio =
     (let total_value = sum_list (map allocation_amount portfolio);
          concentrations = map allocation_percentage portfolio
      in bindE (py_max concentrations) (\<lambda>max_concentration.
      let concentration_risk =
            (if max_concentration > 25 then HIGH
             else if max_concentration > 15 then MEDIUM else LOW);
          num_holdings = length portfolio;
          diversification_score = min 100 ((real num_holdings / 15) * 100);
          sustainability_scores =
            map (\<lambda>h. case sustainability h of None \<Rightarrow> 70 | Some s \<Rightarrow> s) portfolio;
          avg_sustainability = mean sustainability_scores
      in bindE (py_min sustainability_scores) (\<lambda>min_sustainability.
      let sustainability_risk =
            (if min_sustainability > 70 then LOW
             else if min_sustainability > 50 then MEDIUM else HIGH);
          yields = map (\<lambda>h. case predicted_yield h of None \<Rightarrow> 4 | Some y \<Rightarrow> y) portfolio;
          avg_yield = mean yields
      in bindE (py_max yields) (\<lambda>max_yield.
      let yield_risk =
            (if max_yield > 12 then HIGH else if avg_yield > 8 then MEDIUM else LOW)
      in bindE (calculate_var normal k portfolio 0.95) (\<lambda>(var_95, k1).
         bindE (calculate_var normal k1 portfolio 0.99) (\<lambda>(var_99, k2).
      let f_concentration =
            (if concentration_risk = HIGH then 40
             else if concentration_risk = MEDIUM then 20 else 10);
          f_diversification = max 0 (40 - diversification_score / 2);
          f_sustainability =
            (if sustainability_risk = HIGH then 30
             else if sustainability_risk = MEDIUM then 15 else 5);
          f_yield =
            (if yield_risk = HIGH then 25 else if yield_risk = MEDIUM then 12 else 5);
          overall_risk_score = f_concentration + f_diversification + f_sustainability + f_yield;
          overall_risk =
            (if overall_risk_score > 80 then HIGH
             else if overall_risk_score > 50 then MEDIUM else LOW)
      in if total_value = 0 then Inl ZeroDivisionError
         else bindE (generate_risk_recommendations f_concentration f_diversification
                       f_sustainability f_yield portfolio) (\<lambda>recs.
           Inr (\<lparr>overall_risk = overall_risk,
                  risk_score = overall_risk_score,
                  concentration_risk = concentration_risk,
                  max_concentration = max_concentration,
                  diversification_score = diversification_score,
                  sustainability_risk = sustainability_risk,
                  avg_sustainability = avg_sustainability,
                  yield_risk = yield_risk,
                  avg_yield = avg_yield,
                  var_95 = var_95,
                  var_99 = var_99,
                  max_1day_loss_95 = (var_95 / total_value) * 100,
                  max_1day_loss_99 = (var_99 / total_value) * 100,
                  recommendations = recs\<rparr>, k2))))))))"

section \<open>Backtester (\<^verbatim>\<open>DividendBacktester.backtest_strategy\<close>)\<close>

text \<open>The development covers the rebalancing loop. The historical data frame (generated
  at random by the source) and the rebalancing dates (from \<^verbatim>\<open>pd.date_range\<close>) are
  parameters; the performance figures computed after the loop are not part of it.\<close>

record hist_row =
  hr_date :: int
  hr_symbol :: string
  hr_price :: real
  hr_dividend_yield :: real
  hr_dividend_amount :: real
  hr_annual_dividend :: real

datatype action = BUY | SELL

record transaction =
  t_date :: int
  t_symbol :: string
  t_action :: action
  t_shares :: int
  t_price :: real

record value_entry =
  v_date :: int
  v_portfolio_value :: real
  v_cash :: real
  v_invested :: real

text \<open>The variables that the loop updates. The portfolio is a dictionary from symbol to
  share count, in insertion order.\<close>

record backtest_state =
  portfolio :: "(string \<times> int) list"
  cash :: real
  transactions :: "transaction list"
  portfolio_values :: "value_entry list"

text \<open>\<^verbatim>\<open>historical_data[date <= rebalance_date].groupby('symbol').last().reset_index()\<close>:
  for each symbol, in sorted order, the last of its rows up to the date.\<close>

definition current_data :: "hist_row list \<Rightarrow> int \<Rightarrow> hist_row list" where
  "current_data historical_data rebalance_date =
     (let rows = filter (\<lambda>r. hr_date r \<le> rebalance_date) historical_data
      in map (\<lambda>s. last (filter (\<lambda>r. hr_symbol r = s) rows))
           (sort (remdups (map hr_symbol rows))))"

text \<open>The guard \<^verbatim>\<open>symbol in qualified_stocks['symbol'].values\<close> with the price read under
  it, \<^verbatim>\<open>qualified_stocks[qualified_stocks['symbol'] == symbol]['price'].iloc[0]\<close>: \<open>None\<close>
  when the guard fails.\<close>

definition price_of :: "hist_row list \<Rightarrow> string \<Rightarrow> real option" where
  "price_of qualified_stocks symbol =
     map_of (map (\<lambda>r. (hr_symbol r, hr_price r)) qualified_stocks) symbol"

text \<open>The loop that adds the value of the held positions to a starting amount.\<close>

fun holdings_value :: "hist_row list \<Rightarrow> (string \<times> int) list \<Rightarrow> real \<Rightarrow> real" where
  "holdings_value qualified_stocks [] portfolio_value = portfolio_value"
| "holdings_value qualified_stocks ((symbol, shares) # rest) portfolio_value =
     (case price_of qualified_stocks symbol of
        Some current_price \<Rightarrow>
          holdings_value qualified_stocks rest
            (portfolio_value + real_of_int shares * current_price)
      | None \<Rightarrow> holdings_value qualified_stocks rest portfolio_value)"

text \<open>The loop that sells the current holdings.\<close>

fun sell_loop ::
  "hist_row list \<Rightarrow> int \<Rightarrow> (string \<times> int) list \<Rightarrow> real \<times> transaction list
     \<Rightarrow> real \<times> transaction list" where
  "sell_loop qualified_stocks rebalance_date [] (c, txs) = (c, txs)"
| "sell_loop qualified_stocks rebalance_date ((symbol, shares) # rest) (c, txs) =
     (case price_of qualified_stocks symbol of
        Some current_price \<Rightarrow>
          sell_loop qualified_stocks rebalance_date rest
            (c + real_of_int shares * current_price,
             txs @ [\<lparr>t_date = rebalance_date, t_symbol = symbol, t_action = SELL,
                      t_shares = shares, t_price = current_price\<rparr>])
      | None \<Rightarrow> sell_loop qualified_stocks rebalance_date rest (c, txs))"

text \<open>\<^verbatim>\<open>portfolio[symbol] = shares\<close>.\<close>

fun dict_set :: "(string \<times> int) list \<Rightarrow> string \<Rightarrow> int \<Rightarrow> (string \<times> int) list" where
  "dict_set [] k v = [(k, v)]"
| "dict_set ((k', v') # d) k v = (if k' = k then (k, v) # d else (k', v') # dict_set d k v)"

text \<open>The loop that buys the new holdings. A price of zero makes the division raise.\<close>

fun buy_loop ::
  "real \<Rightarrow> int \<Rightarrow> hist_row list \<Rightarrow> (string \<times> int) list \<times> real \<times> transaction list
     \<Rightarrow> error + (string \<times> int) list \<times> real \<times> transaction list" where
  "buy_loop target_allocation rebalance_date [] (p, c, txs) = Inr (p, c, txs)"
| "buy_loop target_allocation rebalance_date (stock # rest) (p, c, txs) =
     (if hr_price stock = 0 then Inl ZeroDivisionError
      else
        (let shares_to_buy = py_int (target_allocation / hr_price stock);
             cost = real_of_int shares_to_buy * hr_price stock
         in if cost \<le> c then
              buy_loop target_allocation rebalance_date rest
                (dict_set p (hr_symbol stock) shares_to_buy,
                 c - cost,
                 txs @ [\<lparr>t_date = rebalance_date, t_symbol = hr_symbol stock, t_action = BUY,
                          t_shares = shares_to_buy, t_price = hr_price stock\<rparr>])
            else buy_loop target_allocation rebalance_date rest (p, c, txs)))"

text \<open>The body of the loop over the rebalancing dates.\<close>

definition rebalance ::
  "hist_row list \<Rightarrow> real \<Rightarrow> int \<Rightarrow> backtest_state \<Rightarrow> error + backtest_state" where
  "rebalance historical_data min_yield rebalance_date st =
     (let qualified_stocks =
            filter (\<lambda>r. hr_dividend_yield r \<ge> min_yield)
              (current_data historical_data rebalance_date)
      in if length qualified_stocks = 0 then Inr st
         else
           (let portfolio_value = holdings_value qualified_stocks (portfolio st) (cash st);
                target_allocation = portfolio_value / real (length qualified_stocks);
                (cash1, txs1) =
                  sell_loop qualified_stocks rebalance_date (portfolio st)
                    (cash st, transactions st)
            in bindE (buy_loop target_allocation rebalance_date qualified_stocks
                        ([], cash1, txs1)) (\<lambda>(portfolio2, cash2, txs2).
                 let current_portfolio_value =
                       holdings_value qualified_stocks portfolio2 cash2
                 in Inr \<lparr>portfolio = portfolio2, cash = cash2, transactions = txs2,
                          portfolio_values = portfolio_values st @
                            [\<lparr>v_date = rebalance_date,
                              v_portfolio_value = current_portfolio_value,
                              v_cash = cash2,
                              v_invested = current_portfolio_value - cash2\<rparr>]\<rparr>)))"

definition initial_state :: "real \<Rightarrow> backtest_state" where
  "initial_state initial_capital =
     \<lparr>portfolio = [], cash = initial_capital, transactions = [], portfolio_values = []\<rparr>"

fun backtest_loop ::
  "hist_row list \<Rightarrow> real \<Rightarrow> int list \<Rightarrow> backtest_state \<Rightarrow> error + backtest_state" where
  "backtest_loop historical_data min_yield [] st = Inr st"
| "backtest_loop historical_data min_yield (rebalance_date # dates) st =
     (case rebalance historical_data min_yield rebalance_date st of
        Inl e \<Rightarrow> Inl e
      | Inr st' \<Rightarrow> backtest_loop historical_data min_yield dates st')"

section \<open>Reference definitions and sample inputs\<close>

text \<open>The count of consecutive growth years as the specification words it: the trailing
  growth-rate entries, most recent first, that are strictly positive, stopping at the
  first entry that is not positive or is missing.\<close>

definition spec_consecutive_growth_years :: "div_row list \<Rightarrow> nat" where
  "spec_consecutive_growth_years dividend_data =
     length (takeWhile (\<lambda>g. case g of Some r \<Rightarrow> r > 0 | None \<Rightarrow> False)
               (rev (map dividend_growth_rate dividend_data)))"

text \<open>A field that holds a number or nothing.\<close>

definition numeric_field :: "pydict \<Rightarrow> string \<Rightarrow> bool" where
  "numeric_field d k = (case dict_get d k of PNone \<Rightarrow> True | PNum x \<Rightarrow> True | _ \<Rightarrow> False)"

text \<open>The inputs of the health score whose fields are numbers where present.\<close>

definition numeric_inputs :: "pydict \<Rightarrow> pydict \<Rightarrow> bool" where
  "numeric_inputs sd fm \<longleftrightarrow>
     numeric_field sd ''dividend_yield'' \<and> numeric_field sd ''payout_ratio'' \<and>
     numeric_field fm ''payout_ratio'' \<and> numeric_field fm ''pe_ratio'' \<and>
     numeric_field fm ''debt_to_equity'' \<and> numeric_field fm ''return_on_equity'' \<and>
     numeric_field fm ''dividend_coverage_ratio''"

text \<open>Scenario B of the specification: every part of the score at its cap.\<close>

definition scenario_b_stock :: pydict where
  "scenario_b_stock = [(''dividend_yield'', PNum 0.04), (''payout_ratio'', PNum 0.45)]"

definition scenario_b_metrics :: pydict where
  "scenario_b_metrics = [(''pe_ratio'', PNum 18), (''debt_to_equity'', PNum 0.3),
     (''return_on_equity'', PNum 0.2), (''dividend_coverage_ratio'', PNum 2.5)]"

definition scenario_b_history :: "div_row list" where
  "scenario_b_history =
     [\<lparr>ex_dividend_date = 1, dividend_amount = 1, dividend_growth_rate = Some 0.02\<rparr>,
      \<lparr>ex_dividend_date = 2, dividend_amount = 1, dividend_growth_rate = Some 0.03\<rparr>,
      \<lparr>ex_dividend_date = 3, dividend_amount = 1, dividend_growth_rate = Some 0.01\<rparr>]"

text \<open>A history whose middle row has no growth rate.\<close>

definition gap_history :: "div_row list" where
  "gap_history =
     [\<lparr>ex_dividend_date = 1, dividend_amount = 1, dividend_growth_rate = Some 5\<rparr>,
      \<lparr>ex_dividend_date = 2, dividend_amount = 1, dividend_growth_rate = None\<rparr>,
      \<lparr>ex_dividend_date = 3, dividend_amount = 1, dividend_growth_rate = Some 5\<rparr>]"

text \<open>The sustainability score that the assessor reads from a holding.\<close>

definition sustainability_score :: "holding \<Rightarrow> real" where
  "sustainability_score h = (case sustainability h of None \<Rightarrow> 70 | Some s \<Rightarrow> s)"

text \<open>A holding whose predicted yield is at least -100 (percent) and whose sustainability
  score is at most 300: both factors of its simulated volatility are then non-negative.\<close>

definition plausible_holding :: "holding \<Rightarrow> bool" where
  "plausible_holding h \<longleftrightarrow>
     - 100 \<le> (case predicted_yield h of None \<Rightarrow> 4 | Some y \<Rightarrow> y) \<and>
     (case sustainability h of None \<Rightarrow> 70 | Some s \<Rightarrow> s) \<le> 300"

text \<open>The sample portfolio of the source's demonstration, \<^verbatim>\<open>demo_risk_management\<close>.\<close>

definition demo_portfolio :: "holding list" where
  "demo_portfolio =
     [\<lparr>h_symbol = ''RELIANCE'', allocation_amount = 150000, allocation_percentage = 30,
       predicted_yield = Some 5.2, sustainability = Some 75\<rparr>,
      \<lparr>h_symbol = ''TCS'', allocation_amount = 100000, allocation_percentage = 20,
       predicted_yield = Some 3.8, sustainability = Some 85\<rparr>,
      \<lparr>h_symbol = ''HDFCBANK'', allocation_amount = 80000, allocation_percentage = 16,
       predicted_yield = Some 2.1, sustainability = Some 80\<rparr>,
      \<lparr>h_symbol = ''ITC'', allocation_amount = 70000, allocation_percentage = 14,
       predicted_yield = Some 6.8, sustainability = Some 65\<rparr>,
      \<lparr>h_symbol = ''COALINDIA'', allocation_amount = 60000, allocation_percentage = 12,
       predicted_yield = Some 8.5, sustainability = Some 55\<rparr>,
      \<lparr>h_symbol = ''INFY'', allocation_amount = 40000, allocation_percentage = 8,
       predicted_yield = Some 4.2, sustainability = Some 90\<rparr>]"

text \<open>Scenario A of the specification: one holding with the whole allocation, here with
  a given sustainability score.\<close>

definition lone_holding :: "real \<Rightarrow> holding" where
  "lone_holding s =
     \<lparr>h_symbol = ''AAA'', allocation_amount = 100, allocation_percentage = 100,
      predicted_yield = Some 0, sustainability = Some s\<rparr>"

text \<open>Two random sources: one whose draws are all 0, and one whose first 10000 draws
  are one standard deviation below the mean and whose later draws are one above.\<close>

definition quiet_source :: random_source where
  "quiet_source k sigma = 0"

definition swing_source :: random_source where
  "swing_source k sigma = (if k < 10000 then - sigma else sigma)"




definition is_member :: "pyval \<Rightarrow> pyval \<Rightarrow> bool" where
  "is_member a v = (case v of PStrList l \<Rightarrow> a \<in> PStr ` set l | _ \<Rightarrow> False)"






text \<open>A filter whose operator is none of the five known ones, or whose criteria is not
  a member of the enumeration.\<close>

definition invalid_filter :: "ScanFilter \<Rightarrow> bool" where
  "invalid_filter f \<longleftrightarrow>
     operator f \<notin> set [''gte'', ''lte'', ''eq'', ''in'', ''not_in''] \<or>
     (case criteria f of NonMember v \<Rightarrow> True | Member c \<Rightarrow> False)"

text \<open>A pipeline with three stocks, the third one without a yield, and configurations
  with one filter on the yield.\<close>

definition sample_pipeline :: data_pipeline where
  "sample_pipeline =
     \<lparr>get_stock_data = (\<lambda>s.
        if s = ''JNJ'' then
          Inr [(''sector'', PStr ''Healthcare''), (''dividend_yield'', PNum 0.029),
               (''payout_ratio'', PNum 0.47)]
        else if s = ''AAPL'' then Inr [(''dividend_yield'', PNum 0.0043)]
        else if s = ''T'' then Inr [(''sector'', PStr ''Telecommunications'')]
        else Inr []),
      get_financial_metrics = (\<lambda>s. Inr []),
      get_dividend_history = (\<lambda>s. Inr [])\<rparr>"

definition yield_filter :: "string \<Rightarrow> ScanFilter" where
  "yield_filter op =
     \<lparr>criteria = Member MIN_DIVIDEND_YIELD, filter_value = PNum 0.02, operator = op\<rparr>"

text \<open>A filter whose criteria is the name of a member as a string, not the member.\<close>

definition string_tag_filter :: ScanFilter where
  "string_tag_filter =
     \<lparr>criteria = NonMember (PStr ''min_dividend_yield''), filter_value = PNum 0.02,
      operator = ''gte''\<rparr>"

definition sample_config :: "ScanFilter \<Rightarrow> ScanConfiguration" where
  "sample_config f =
     \<lparr>config_name = ''Sample'', filters = [f], sort_by = ''dividend_yield'',
      sort_order = ''desc'', limit = None\<rparr>"







text \<open>A stand-in for the sort of the data frame that keeps the rows as they are.\<close>

definition keep_order :: "string \<Rightarrow> bool \<Rightarrow> scan_row list \<Rightarrow> error + scan_row list" where
  "keep_order by_column ascending rows = Inr rows"

definition no_float :: "string \<Rightarrow> real option" where
  "no_float s = None"


text \<open>A price history of two symbols over two dates, sorted by symbol and date as the
  source sorts it: the yield of the first symbol falls from 5% to 1% while the yield of
  the second one rises from 1% to 5%; the prices stay at 100 and 50.\<close>

definition swap_history :: "hist_row list" where
  "swap_history =
     [\<lparr>hr_date = 1, hr_symbol = ''AAA'', hr_price = 100, hr_dividend_yield = 0.05,
       hr_dividend_amount = 0, hr_annual_dividend = 5\<rparr>,
      \<lparr>hr_date = 2, hr_symbol = ''AAA'', hr_price = 100, hr_dividend_yield = 0.01,
       hr_dividend_amount = 0, hr_annual_dividend = 1\<rparr>,
      \<lparr>hr_date = 1, hr_symbol = ''BBB'', hr_price = 50, hr_dividend_yield = 0.01,
       hr_dividend_amount = 0, hr_annual_dividend = 0.5\<rparr>,
      \<lparr>hr_date = 2, hr_symbol = ''BBB'', hr_price = 50, hr_dividend_yield = 0.05,
       hr_dividend_amount = 0, hr_annual_dividend = 2.5\<rparr>]"

text \<open>A state of the loop with one position and some cash.\<close>

definition invested_state :: backtest_state where
  "invested_state =
     \<lparr>portfolio = [(''AAA'', 10)], cash = 5,
      transactions = [\<lparr>t_date = 0, t_symbol = ''AAA'', t_action = BUY, t_shares = 10,
                        t_price = 100\<rparr>],
      portfolio_values = []\<rparr>"

section \<open>Basic facts\<close>

lemma bindE_Inr_iff: "bindE m f = Inr y \<longleftrightarrow> (\<exists>x. m = Inr x \<and> f x = Inr y)"
  by (cases m) (simp_all add: bindE_def)

lemma bindE_simps [simp]: "bindE (Inl e) f = Inl e" "bindE (Inr x) f = f x"
  by (simp_all add: bindE_def)

section \<open>The health score\<close>

lemma yield_score_range: "yield_score pf sd = Inr s \<Longrightarrow> 0 \<le> s \<and> s \<le> 20"
  by (auto simp: yield_score_def Let_def bindE_Inr_iff split: if_splits)

lemma payout_score_range: "payout_score pf sd fm = Inr s \<Longrightarrow> 0 \<le> s \<and> s \<le> 25"
  by (auto simp: payout_score_def Let_def bindE_Inr_iff split: if_splits)

lemma growth_score_range: "0 \<le> growth_score dd \<and> growth_score dd \<le> 20"
proof -
  have "0 \<le> real (length (filter P xs)) / real (length xs) * 20 \<and>
        real (length (filter P xs)) / real (length xs) * 20 \<le> 20" for P and xs :: "real list"
  proof (cases "xs = []")
    case True
    then show ?thesis by simp
  next
    case False
    have "real (length (filter P xs)) \<le> real (length xs)" by simp
    with False have "real (length (filter P xs)) / real (length xs) \<le> 1"
      by (simp add: divide_le_eq_1)
    then have "real (length (filter P xs)) / real (length xs) * 20 \<le> 1 * 20"
      by (rule mult_right_mono) simp
    then show ?thesis by simp
  qed
  then show ?thesis
    unfolding growth_score_def Let_def by simp
qed

lemma financial_health_range:
  assumes "financial_health fm = Inr s"
  shows "0 \<le> s \<and> s \<le> 20"
proof -
  from assms obtain c1 c2 c3 :: bool where
    "s = (if c1 then 7 else 0) + (if c2 then 7 else 0) + (if c3 then 6 else 0)"
    unfolding financial_health_def Let_def bindE_Inr_iff by auto
  then show ?thesis by simp
qed

lemma coverage_score_range: "coverage_score fm = Inr s \<Longrightarrow> 0 \<le> s \<and> s \<le> 15"
  by (auto simp: coverage_score_def Let_def bindE_Inr_iff split: if_splits)

lemma yield_score_total: "numeric_field sd ''dividend_yield'' \<Longrightarrow> \<exists>s. yield_score pf sd = Inr s"
  unfolding yield_score_def numeric_field_def dict_get_def dict_get_default_def py_or_def Let_def
  by (auto split: option.splits pyval.splits)

lemma payout_score_total:
  "numeric_field sd ''payout_ratio'' \<Longrightarrow> numeric_field fm ''payout_ratio'' \<Longrightarrow>
   \<exists>s. payout_score pf sd fm = Inr s"
  unfolding payout_score_def numeric_field_def py_or_def Let_def
  by (cases "dict_get sd ''payout_ratio''"; cases "dict_get fm ''payout_ratio''") auto

lemma financial_health_total:
  "numeric_field fm ''pe_ratio'' \<Longrightarrow> numeric_field fm ''debt_to_equity'' \<Longrightarrow>
   numeric_field fm ''return_on_equity'' \<Longrightarrow> \<exists>s. financial_health fm = Inr s"
  unfolding financial_health_def numeric_field_def Let_def
  by (cases "dict_get fm ''pe_ratio''"; cases "dict_get fm ''debt_to_equity''";
      cases "dict_get fm ''return_on_equity''") auto

lemma coverage_score_total:
  "numeric_field fm ''dividend_coverage_ratio'' \<Longrightarrow> \<exists>s. coverage_score fm = Inr s"
  unfolding coverage_score_def numeric_field_def Let_def
  by (cases "dict_get fm ''dividend_coverage_ratio''") auto

text \<open>
  Claim C7. For every input (stock data, financial metrics, dividend history), the health
  score that the calculator returns lies in the closed interval from 0 to 100. The
  calculator raises only on a field of the wrong kind: on inputs whose fields are numbers
  or absent it does return a score.
\<close>

theorem health_score_bounded:
  "(numeric_inputs sd fm \<longrightarrow> (\<exists>s. calculate_health_score pf sd fm dd = Inr s)) \<and>
   (\<forall>s. calculate_health_score pf sd fm dd = Inr s \<longrightarrow> 0 \<le> s \<and> s \<le> 100)"
proof (rule conjI)
  show "numeric_inputs sd fm \<longrightarrow> (\<exists>s. calculate_health_score pf sd fm dd = Inr s)"
  proof
    assume n: "numeric_inputs sd fm"
    from n obtain s1 where "yield_score pf sd = Inr s1"
      using yield_score_total[of sd pf] by (auto simp: numeric_inputs_def)
    moreover from n obtain s2 where "payout_score pf sd fm = Inr s2"
      using payout_score_total[of sd fm pf] by (auto simp: numeric_inputs_def)
    moreover from n obtain s4 where "financial_health fm = Inr s4"
      using financial_health_total[of fm] by (auto simp: numeric_inputs_def)
    moreover from n obtain s5 where "coverage_score fm = Inr s5"
      using coverage_score_total[of fm] by (auto simp: numeric_inputs_def)
    ultimately show "\<exists>s. calculate_health_score pf sd fm dd = Inr s"
      by (simp add: calculate_health_score_def)
  qed
next
  show "\<forall>s. calculate_health_score pf sd fm dd = Inr s \<longrightarrow> 0 \<le> s \<and> s \<le> 100"
  proof (intro allI impI)
    fix s assume "calculate_health_score pf sd fm dd = Inr s"
    then obtain s1 s2 s4 s5 where
      1: "yield_score pf sd = Inr s1" and 2: "payout_score pf sd fm = Inr s2" and
      4: "financial_health fm = Inr s4" and 5: "coverage_score fm = Inr s5" and
      s: "s = min (0 + s1 + s2 + growth_score dd + s4 + s5) 100"
      by (auto simp: calculate_health_score_def bindE_Inr_iff)
    from yield_score_range[OF 1] payout_score_range[OF 2] growth_score_range[of dd]
      financial_health_range[OF 4] coverage_score_range[OF 5] s
    show "0 \<le> s \<and> s \<le> 100" by simp
  qed
qed

lemma scenario_b_score:
  "calculate_health_score (\<lambda>s. None) scenario_b_stock scenario_b_metrics scenario_b_history
     = Inr 100"
  by (simp add: calculate_health_score_def yield_score_def payout_score_def growth_score_def
      financial_health_def coverage_score_def scenario_b_stock_def scenario_b_metrics_def
      scenario_b_history_def dict_get_def dict_get_default_def py_or_def Let_def)

theorem health_score_bounded_witness:
  "numeric_inputs scenario_b_stock scenario_b_metrics \<and>
   calculate_health_score (\<lambda>s. None) scenario_b_stock scenario_b_metrics scenario_b_history
     = Inr 100 \<and> (0::real) \<le> 100 \<and> (100::real) \<le> 100"
  using health_score_bounded[of scenario_b_stock scenario_b_metrics "\<lambda>s. None"
      scenario_b_history] scenario_b_score
  by (simp add: numeric_inputs_def numeric_field_def scenario_b_stock_def
      scenario_b_metrics_def dict_get_def dict_get_default_def)

text \<open>
  Claim C4. With a debt-to-equity ratio that is present, the financial-health part awards
  the 7 points of the debt bonus exactly when the ratio is at most 0.5; a ratio of 0 is
  present and earns the bonus. The code tests the ratio for truth before comparing it, and
  0 is falsy: with the ratio 0 as the only input the score is 0, while the ratio 0.3
  scores the 7 points.
\<close>

theorem debt_free_scores_no_bonus:
  "financial_health [(''debt_to_equity'', PNum 0)] = Inr 0 \<and>
   calculate_health_score pf [] [(''debt_to_equity'', PNum 0)] [] = Inr 0 \<and>
   calculate_health_score pf [] [(''debt_to_equity'', PNum 0.3)] [] = Inr 7"
  by (simp add: calculate_health_score_def yield_score_def payout_score_def growth_score_def
      financial_health_def coverage_score_def dict_get_def dict_get_default_def py_or_def
      Let_def)

section \<open>Consecutive growth years\<close>

lemma growth_loop_eq: "growth_loop rs c = c + length (takeWhile (\<lambda>r. r > 0) rs)"
  by (induction rs arbitrary: c) auto

lemma dropna_map_filter:
  "dropna (map dividend_growth_rate (filter (\<lambda>r. dividend_growth_rate r \<noteq> None) dd))
     = dropna (map dividend_growth_rate dd)"
  by (induction dd) auto

lemma takeWhile_positive_dropna:
  "\<forall>g \<in> set gs. g \<noteq> None \<Longrightarrow>
   length (takeWhile (\<lambda>g. case g of Some r \<Rightarrow> r > 0 | None \<Rightarrow> False) gs)
     = length (takeWhile (\<lambda>r. r > (0::real)) (dropna gs))"
  by (induction gs) auto

lemma dropna_rev: "dropna (rev gs) = rev (dropna gs)"
proof -
  have app: "dropna (xs @ ys) = dropna xs @ dropna ys" for xs ys :: "'a option list"
    by (induction xs rule: dropna.induct) auto
  show ?thesis
    by (induction gs rule: dropna.induct) (auto simp: app)
qed

text \<open>
  Claim C5, as amended. The derived count of consecutive growth years is the count of
  trailing growth-rate entries, most recent first, that are strictly positive, stopping at
  the first entry that is not positive, taken over the rows whose growth rate is not null:
  the null entries are dropped before the count, so a null entry between positive ones is
  skipped and does not end the count.
\<close>

theorem count_growth_years_skips_nulls:
  "count_growth_years dd =
     spec_consecutive_growth_years (filter (\<lambda>r. dividend_growth_rate r \<noteq> None) dd)"
proof -
  let ?dd' = "filter (\<lambda>r. dividend_growth_rate r \<noteq> None) dd"
  let ?gs = "rev (map dividend_growth_rate ?dd')"
  have "\<forall>g \<in> set ?gs. g \<noteq> None" by auto
  then have "spec_consecutive_growth_years ?dd'
      = length (takeWhile (\<lambda>r. r > 0) (dropna ?gs))"
    unfolding spec_consecutive_growth_years_def by (rule takeWhile_positive_dropna)
  also have "dropna ?gs = rev (dropna (map dividend_growth_rate dd))"
    by (simp only: dropna_rev dropna_map_filter)
  finally show ?thesis
    by (simp add: count_growth_years_def growth_loop_eq)
qed

text \<open>
  Claim C5 as stated fails: in a history with the growth rates 5, null, 5 the null entry
  sits between two positive ones; the source counts 2 years, the stated rule counts 1.
\<close>

theorem count_growth_years_counterexample:
  "count_growth_years gap_history = 2 \<and> spec_consecutive_growth_years gap_history = 1"
  by (simp add: count_growth_years_def spec_consecutive_growth_years_def gap_history_def)

section \<open>The risk assessor\<close>

lemma py_min_Min: "xs \<noteq> [] \<Longrightarrow> py_min xs = Inr (Min (set xs))"
proof -
  have "fold (\<lambda>y m. if y < m then y else m) ys x = Min (set (x # ys))" for x :: real and ys
  proof (induction ys arbitrary: x)
    case Nil
    then show ?case by simp
  next
    case (Cons y ys)
    have step: "(if y < x then y else x) = min y x" by (simp add: min_def)
    have "Min (insert (min y x) (set ys)) = min x (Min (insert y (set ys)))"
      by (cases "ys = []") (simp_all add: min.assoc min.commute min.left_commute)
    then show ?case using Cons[of "min y x"] step
      by simp
  qed
  then show "xs \<noteq> [] \<Longrightarrow> py_min xs = Inr (Min (set xs))"
    by (cases xs) simp_all
qed

lemma py_max_returns: "xs \<noteq> [] \<Longrightarrow> \<exists>m. py_max xs = Inr m"
  by (cases xs) simp_all

lemma max_by_allocation_returns: "p \<noteq> [] \<Longrightarrow> \<exists>h. max_by_allocation p = Inr h"
  by (cases p) simp_all

lemma plausible_volatility:
  assumes "plausible_holding h"
  shows "\<not> 0.02 * (1 + (case predicted_yield h of None \<Rightarrow> 4 | Some y \<Rightarrow> y) / 100) *
             (1.5 - (case sustainability h of None \<Rightarrow> 70 | Some s \<Rightarrow> s) / 100 * 0.5) < 0"
proof -
  let ?y = "case predicted_yield h of None \<Rightarrow> 4 | Some y \<Rightarrow> y"
  let ?s = "case sustainability h of None \<Rightarrow> 70 | Some s \<Rightarrow> s"
  from assms have "0 \<le> 0.02 * (1 + ?y / 100)" and "0 \<le> 1.5 - ?s / 100 * 0.5"
    by (simp_all add: plausible_holding_def)
  then have "0 \<le> 0.02 * (1 + ?y / 100) * (1.5 - ?s / 100 * 0.5)"
    by (rule mult_nonneg_nonneg)
  then show ?thesis by simp
qed

lemma daily_return_loop_returns:
  "list_all plausible_holding p \<Longrightarrow>
   \<exists>dr. daily_return_loop normal p k acc = Inr (dr, k + length p)"
proof (induction p arbitrary: k acc)
  case Nil
  then show ?case by simp
next
  case (Cons h p)
  from Cons.prems have h: "plausible_holding h" and p: "list_all plausible_holding p"
    by simp_all
  from Cons.IH[OF p, of "Suc k"] plausible_volatility[OF h] show ?case
    by (simp add: Let_def)
qed

lemma simulate_returns:
  "list_all plausible_holding p \<Longrightarrow>
   \<exists>vs. simulate n normal p t k = Inr (vs, k + n * length p)"
proof (induction n arbitrary: k)
  case 0
  then show ?case by simp
next
  case (Suc n)
  from daily_return_loop_returns[OF Suc.prems, of normal k 0] obtain dr where
    dr: "daily_return_loop normal p k 0 = Inr (dr, k + length p)" by blast
  from Suc.IH[OF Suc.prems, of "k + length p"] obtain vs where
    "simulate n normal p t (k + length p) = Inr (vs, k + length p + n * length p)" by blast
  with dr show ?case by (simp add: add.assoc)
qed

lemma length_simulate: "simulate n normal p t k = Inr (vs, k') \<Longrightarrow> length vs = n"
  by (induction n arbitrary: k vs) (auto split: sum.splits prod.splits)

lemma py_int_500: "py_int ((1 - 0.95) * real (10000::nat)) = 500"
  by (simp add: py_int_def)

lemma py_int_100: "py_int ((1 - 0.99) * real (10000::nat)) = 100"
  by (simp add: py_int_def)

lemma calculate_var_95:
  assumes "simulate 10000 normal p (sum_list (map allocation_amount p)) k = Inr (vs, k')"
  shows "calculate_var normal k p 0.95 =
           Inr (max 0 (sum_list (map allocation_amount p) - sort vs ! 500), k')"
  unfolding calculate_var_def Let_def assms bindE_simps prod.case py_int_500
  using length_simulate[OF assms] by (simp add: py_index_def)

lemma calculate_var_99:
  assumes "simulate 10000 normal p (sum_list (map allocation_amount p)) k = Inr (vs, k')"
  shows "calculate_var normal k p 0.99 =
           Inr (max 0 (sum_list (map allocation_amount p) - sort vs ! 100), k')"
  unfolding calculate_var_def Let_def assms bindE_simps prod.case py_int_100
  using length_simulate[OF assms] by (simp add: py_index_def)

lemma calculate_var_simulated:
  assumes "calculate_var normal k p c = Inr (v, k')"
  shows "\<exists>vs. simulate 10000 normal p (sum_list (map allocation_amount p)) k = Inr (vs, k')"
  using assms unfolding calculate_var_def Let_def
  by (auto simp: bindE_Inr_iff)

lemma var_order_same_values:
  assumes "simulate 10000 normal p (sum_list (map allocation_amount p)) k = Inr (vs, k')"
  shows "max 0 (sum_list (map allocation_amount p) - sort vs ! 500)
           \<le> max 0 (sum_list (map allocation_amount p) - sort vs ! 100)"
proof -
  have "length (sort vs) = 10000" using length_simulate[OF assms] by simp
  then have "sort vs ! 100 \<le> sort vs ! 500"
    by (intro sorted_nth_mono) simp_all
  then show ?thesis by simp
qed

text \<open>
  Claim C8, as amended. For every portfolio and every random source, whenever the value at
  risk at 95% confidence and the value at risk at 99% confidence are both computed from one
  simulation run, that is from the same draws, the 99% figure is at least the 95% figure:
  the 99% figure reads the sorted simulated values at index 100, the 95% figure at index
  500. Both computations return when every holding has a predicted yield of at least -100
  and a sustainability score of at most 300; a negative volatility makes the random source
  raise. Within one assessment the two figures come from two separate runs, for which no
  order is promised.
\<close>

theorem var_99_ge_var_95_same_run:
  "(list_all plausible_holding p \<longrightarrow>
      (\<exists>v95 v99 k'. calculate_var normal k p 0.95 = Inr (v95, k') \<and>
         calculate_var normal k p 0.99 = Inr (v99, k') \<and> v95 \<le> v99)) \<and>
   (\<forall>v95 v99 k1 k2. calculate_var normal k p 0.95 = Inr (v95, k1) \<and>
      calculate_var normal k p 0.99 = Inr (v99, k2) \<longrightarrow> v95 \<le> v99)"
proof (rule conjI)
  show "list_all plausible_holding p \<longrightarrow>
      (\<exists>v95 v99 k'. calculate_var normal k p 0.95 = Inr (v95, k') \<and>
         calculate_var normal k p 0.99 = Inr (v99, k') \<and> v95 \<le> v99)"
  proof
    assume "list_all plausible_holding p"
    from simulate_returns[OF this, of 10000 normal "sum_list (map allocation_amount p)" k]
    obtain vs k' where
      s: "simulate 10000 normal p (sum_list (map allocation_amount p)) k = Inr (vs, k')"
      by blast
    from calculate_var_95[OF s] calculate_var_99[OF s] var_order_same_values[OF s]
    show "\<exists>v95 v99 k'. calculate_var normal k p 0.95 = Inr (v95, k') \<and>
         calculate_var normal k p 0.99 = Inr (v99, k') \<and> v95 \<le> v99"
      by blast
  qed
next
  show "\<forall>v95 v99 k1 k2. calculate_var normal k p 0.95 = Inr (v95, k1) \<and>
      calculate_var normal k p 0.99 = Inr (v99, k2) \<longrightarrow> v95 \<le> v99"
  proof (intro allI impI)
    fix v95 v99 k1 k2
    assume a: "calculate_var normal k p 0.95 = Inr (v95, k1) \<and>
      calculate_var normal k p 0.99 = Inr (v99, k2)"
    then obtain vs where
      s: "simulate 10000 normal p (sum_list (map allocation_amount p)) k = Inr (vs, k1)"
      using calculate_var_simulated by blast
    from a calculate_var_95[OF s] calculate_var_99[OF s] var_order_same_values[OF s]
    show "v95 \<le> v99" by simp
  qed
qed

text \<open>
  Claim C10. The assessment of an empty portfolio raises: the largest element of the empty
  list of concentrations is taken, which is a \<^verbatim>\<open>ValueError\<close>. No assessment is returned.
\<close>

theorem empty_portfolio_raises: "assess_portfolio_risk normal k [] = Inl ValueError"
  by (simp add: assess_portfolio_risk_def)

lemma recommendations_return:
  assumes "p \<noteq> []"
  shows "\<exists>recs. generate_risk_recommendations fc fd fs fy p = Inr recs"
proof -
  from assms obtain h where "max_by_allocation p = Inr h"
    using max_by_allocation_returns by blast
  then show ?thesis
    unfolding generate_risk_recommendations_def Let_def by simp
qed

lemma bindE_returns:
  assumes "\<exists>x. m = Inr x"
  shows "\<exists>r k'. bindE m (\<lambda>x. Inr (F x, K)) = Inr (r, k')"
proof -
  from assms obtain x where "m = Inr x" by blast
  then have "bindE m (\<lambda>x. Inr (F x, K)) = Inr (F x, K)" by simp
  then show ?thesis by blast
qed

lemma assess_returns:
  assumes "p \<noteq> []" and "sum_list (map allocation_amount p) \<noteq> 0"
    and "list_all plausible_holding p"
  shows "\<exists>r k'. assess_portfolio_risk normal k p = Inr (r, k')"
proof -
  let ?scores = "map (\<lambda>h. case sustainability h of None \<Rightarrow> 70 | Some s \<Rightarrow> s) p"
  let ?yields = "map (\<lambda>h. case predicted_yield h of None \<Rightarrow> 4 | Some y \<Rightarrow> y) p"
  let ?total = "sum_list (map allocation_amount p)"
  from assms(1) obtain mc where mc: "py_max (map allocation_percentage p) = Inr mc"
    using py_max_returns[of "map allocation_percentage p"] by auto
  from assms(1) obtain my where my: "py_max ?yields = Inr my"
    using py_max_returns[of ?yields] by auto
  from assms(1) have ms: "py_min ?scores = Inr (Min (set ?scores))"
    using py_min_Min[of ?scores] by simp
  from simulate_returns[OF assms(3), of 10000 normal ?total k] obtain vs1 k1 where
    s1: "simulate 10000 normal p ?total k = Inr (vs1, k1)" by blast
  from simulate_returns[OF assms(3), of 10000 normal ?total k1] obtain vs2 k2 where
    s2: "simulate 10000 normal p ?total k1 = Inr (vs2, k2)" by blast
  note v1 = calculate_var_95[OF s1] and v2 = calculate_var_99[OF s2]
  show ?thesis
    unfolding assess_portfolio_risk_def Let_def mc my ms bindE_simps v1 v2 prod.case
    apply (simp only: assms(2) if_False)
    apply (rule bindE_returns)
    apply (rule recommendations_return[OF assms(1)])
    done
qed

lemma bindE_InrE:
  assumes "bindE m f = Inr y"
  obtains x where "m = Inr x" and "f x = Inr y"
  using assms by (auto simp: bindE_Inr_iff)

lemma bindE_pair_InrE:
  assumes "bindE m (\<lambda>(a, b). g a b) = Inr y"
  obtains a b where "m = Inr (a, b)" and "g a b = Inr y"
  using assms by (auto simp: bindE_Inr_iff)

lemma assess_label:
  assumes "assess_portfolio_risk normal k p = Inr (r, k')"
  shows "sustainability_risk r =
           (if Min (sustainability_score ` set p) > 70 then LOW
            else if Min (sustainability_score ` set p) > 50 then MEDIUM else HIGH)"
proof -
  let ?scores = "map (\<lambda>h. case sustainability h of None \<Rightarrow> 70 | Some s \<Rightarrow> s) p"
  have ne: "p \<noteq> []"
  proof
    assume "p = []"
    with assms show False by (simp add: assess_portfolio_risk_def)
  qed
  have "set ?scores = sustainability_score ` set p"
    by (auto simp: sustainability_score_def)
  with ne have ms: "py_min ?scores = Inr (Min (sustainability_score ` set p))"
    using py_min_Min[of ?scores] by simp
  show ?thesis
  proof (cases "sum_list (map allocation_amount p) = 0")
    case True
    from assms show ?thesis
      unfolding assess_portfolio_risk_def Let_def ms bindE_simps
      apply (elim bindE_pair_InrE bindE_InrE)
      apply (simp only: True simp_thms if_True sum.distinct)
      done
  next
    case False
    from assms show ?thesis
      unfolding assess_portfolio_risk_def Let_def ms bindE_simps
      apply (elim bindE_pair_InrE bindE_InrE)
      apply (simp only: False if_False)
      apply (elim bindE_InrE)
      apply (simp only: sum.inject prod.inject)
      apply (elim conjE)
      apply hypsubst
      apply (simp only: risk_assessment.select_convs)
      done
  qed
qed

text \<open>
  Claim C3, as amended. Whenever the assessment of a portfolio returns, it labels the
  sustainability risk HIGH exactly when the smallest sustainability score of the holdings
  is at most 50, MEDIUM exactly when it is above 50 and at most 70, and LOW exactly when it
  is above 70: a smallest score of exactly 50 is HIGH and one of exactly 70 is MEDIUM. The
  assessment returns for every non-empty portfolio whose total allocation is not zero and
  whose holdings have a predicted yield of at least -100 and a sustainability score of at
  most 300.
\<close>

theorem sustainability_risk_thresholds:
  "(p \<noteq> [] \<and> sum_list (map allocation_amount p) \<noteq> 0 \<and> list_all plausible_holding p \<longrightarrow>
      (\<exists>r k'. assess_portfolio_risk normal k p = Inr (r, k'))) \<and>
   (\<forall>r k'. assess_portfolio_risk normal k p = Inr (r, k') \<longrightarrow>
      (sustainability_risk r = HIGH \<longleftrightarrow> Min (sustainability_score ` set p) \<le> 50) \<and>
      (sustainability_risk r = MEDIUM \<longleftrightarrow>
         50 < Min (sustainability_score ` set p) \<and> Min (sustainability_score ` set p) \<le> 70) \<and>
      (sustainability_risk r = LOW \<longleftrightarrow> 70 < Min (sustainability_score ` set p)))"
proof (rule conjI)
  show "p \<noteq> [] \<and> sum_list (map allocation_amount p) \<noteq> 0 \<and> list_all plausible_holding p \<longrightarrow>
      (\<exists>r k'. assess_portfolio_risk normal k p = Inr (r, k'))"
    using assess_returns[of p normal k] by blast
next
  show "\<forall>r k'. assess_portfolio_risk normal k p = Inr (r, k') \<longrightarrow>
      (sustainability_risk r = HIGH \<longleftrightarrow> Min (sustainability_score ` set p) \<le> 50) \<and>
      (sustainability_risk r = MEDIUM \<longleftrightarrow>
         50 < Min (sustainability_score ` set p) \<and> Min (sustainability_score ` set p) \<le> 70) \<and>
      (sustainability_risk r = LOW \<longleftrightarrow> 70 < Min (sustainability_score ` set p))"
  proof (intro allI impI)
    fix r k'
    assume "assess_portfolio_risk normal k p = Inr (r, k')"
    from assess_label[OF this]
    show "(sustainability_risk r = HIGH \<longleftrightarrow> Min (sustainability_score ` set p) \<le> 50) \<and>
      (sustainability_risk r = MEDIUM \<longleftrightarrow>
         50 < Min (sustainability_score ` set p) \<and> Min (sustainability_score ` set p) \<le> 70) \<and>
      (sustainability_risk r = LOW \<longleftrightarrow> 70 < Min (sustainability_score ` set p))"
      by (simp split: if_splits)
  qed
qed

lemma demo_min_score: "Min (sustainability_score ` set demo_portfolio) = 55"
  by (simp add: demo_portfolio_def sustainability_score_def)

theorem sustainability_risk_thresholds_witness:
  "demo_portfolio \<noteq> [] \<and> sum_list (map allocation_amount demo_portfolio) = 500000 \<and>
   list_all plausible_holding demo_portfolio \<and>
   Min (sustainability_score ` set demo_portfolio) = 55 \<and>
   (\<exists>r k'. assess_portfolio_risk quiet_source 0 demo_portfolio = Inr (r, k') \<and>
      sustainability_risk r = MEDIUM)"
proof -
  have pre: "demo_portfolio \<noteq> []" "sum_list (map allocation_amount demo_portfolio) = 500000"
    "list_all plausible_holding demo_portfolio"
    by (simp_all add: demo_portfolio_def plausible_holding_def)
  from sustainability_risk_thresholds[of demo_portfolio quiet_source 0] pre
  obtain r k' where r: "assess_portfolio_risk quiet_source 0 demo_portfolio = Inr (r, k')"
    by auto
  with sustainability_risk_thresholds[of demo_portfolio quiet_source 0] demo_min_score
  have "sustainability_risk r = MEDIUM" by simp
  with r pre demo_min_score show ?thesis by blast
qed

lemma lone_holding_simps [simp]:
  "h_symbol (lone_holding s) = ''AAA''"
  "allocation_amount (lone_holding s) = 100"
  "allocation_percentage (lone_holding s) = 100"
  "predicted_yield (lone_holding s) = Some 0"
  "sustainability (lone_holding s) = Some s"
  by (simp_all add: lone_holding_def)

lemma simulate_lone:
  assumes "s \<le> 300"
  shows "simulate n normal [lone_holding s] t k =
     Inr (map (\<lambda>j. t * (1 + normal j (0.02 * (1.5 - s / 100 * 0.5)))) [k..<k + n], k + n)"
proof (induction n arbitrary: k)
  case 0
  then show ?case by simp
next
  case (Suc n)
  have "[k..<k + Suc n] = k # [Suc k..<Suc k + n]"
    by (simp add: upt_conv_Cons)
  with assms show ?case
    by (simp add: Suc Let_def)
qed

lemma sort_replicate: "sort (replicate n (x::real)) = replicate n x"
  by (rule sorted_sort_id) simp

lemma simulate_quiet:
  "s \<le> 300 \<Longrightarrow> simulate n quiet_source [lone_holding s] t k = Inr (replicate n t, k + n)"
  by (simp add: simulate_lone quiet_source_def map_replicate_const)

lemma var_quiet_95:
  "s \<le> 300 \<Longrightarrow> calculate_var quiet_source k [lone_holding s] 0.95 = Inr (0, k + 10000)"
  using calculate_var_95[of quiet_source "[lone_holding s]" k "replicate 10000 100" "k + 10000"]
    simulate_quiet[of s 10000 100 k]
  by (simp add: sort_replicate)

lemma var_quiet_99:
  "s \<le> 300 \<Longrightarrow> calculate_var quiet_source k [lone_holding s] 0.99 = Inr (0, k + 10000)"
  using calculate_var_99[of quiet_source "[lone_holding s]" k "replicate 10000 100" "k + 10000"]
    simulate_quiet[of s 10000 100 k]
  by (simp add: sort_replicate)

lemma simulate_swing_low:
  assumes "k + n \<le> 10000" and "s \<le> 300"
  shows "simulate n swing_source [lone_holding s] t k =
           Inr (replicate n (t * (1 - 0.02 * (1.5 - s / 100 * 0.5))), k + n)"
proof -
  have "map (\<lambda>j. t * (1 + swing_source j (0.02 * (1.5 - s / 100 * 0.5)))) [k..<k + n]
      = map (\<lambda>j. t * (1 - 0.02 * (1.5 - s / 100 * 0.5))) [k..<k + n]"
    using assms(1) by (intro map_cong refl) (simp add: swing_source_def)
  then show ?thesis
    by (simp add: simulate_lone[OF assms(2)] map_replicate_const)
qed

lemma simulate_swing_high:
  assumes "10000 \<le> k" and "s \<le> 300"
  shows "simulate n swing_source [lone_holding s] t k =
           Inr (replicate n (t * (1 + 0.02 * (1.5 - s / 100 * 0.5))), k + n)"
proof -
  have "map (\<lambda>j. t * (1 + swing_source j (0.02 * (1.5 - s / 100 * 0.5)))) [k..<k + n]
      = map (\<lambda>j. t * (1 + 0.02 * (1.5 - s / 100 * 0.5))) [k..<k + n]"
    using assms(1) by (intro map_cong refl) (simp add: swing_source_def)
  then show ?thesis
    by (simp add: simulate_lone[OF assms(2)] map_replicate_const)
qed

lemma simulate_swing_first:
  "simulate 10000 swing_source [lone_holding 100] 100 0 = Inr (replicate 10000 98, 10000)"
  using simulate_swing_low[of 0 10000 100 100] by simp

lemma simulate_swing_second:
  "simulate 10000 swing_source [lone_holding 100] 100 10000 = Inr (replicate 10000 102, 20000)"
  using simulate_swing_high[of 10000 100 10000 100] by simp

lemma var_swing_95: "calculate_var swing_source 0 [lone_holding 100] 0.95 = Inr (2, 10000)"
  using calculate_var_95[of swing_source "[lone_holding 100]" 0 "replicate 10000 98" 10000]
    simulate_swing_first
  by (simp add: sort_replicate)

lemma var_swing_99: "calculate_var swing_source 10000 [lone_holding 100] 0.99 = Inr (0, 20000)"
  using calculate_var_99[of swing_source "[lone_holding 100]" 10000 "replicate 10000 102" 20000]
    simulate_swing_second
  by (simp add: sort_replicate)

lemma var_swing_99_first_run:
  "calculate_var swing_source 0 [lone_holding 100] 0.99 = Inr (2, 10000)"
  using calculate_var_99[of swing_source "[lone_holding 100]" 0 "replicate 10000 98" 10000]
    simulate_swing_first
  by (simp add: sort_replicate)

theorem var_99_ge_var_95_same_run_witness:
  "list_all plausible_holding [lone_holding 100] \<and>
   calculate_var swing_source 0 [lone_holding 100] 0.95 = Inr (2, 10000) \<and>
   calculate_var swing_source 0 [lone_holding 100] 0.99 = Inr (2, 10000) \<and>
   (2::real) \<le> 2"
  using var_99_ge_var_95_same_run[of "[lone_holding 100]" swing_source 0]
    var_swing_95 var_swing_99_first_run
  by (simp add: plausible_holding_def)

text \<open>
  Claim C8 as stated fails. One holding with the whole allocation of 100, and a random
  source whose first 10000 draws (the run for 95%) are one standard deviation down and
  whose next 10000 draws (the run for 99%) are one standard deviation up: the assessment
  reports a value at risk of 2 at 95% and of 0 at 99%.
\<close>

theorem separate_runs_counterexample:
  "assess_portfolio_risk swing_source 0 [lone_holding 100] =
     Inr (\<lparr>overall_risk = HIGH, risk_score = 260 / 3,
           concentration_risk = HIGH, max_concentration = 100,
           diversification_score = 20 / 3,
           sustainability_risk = LOW, avg_sustainability = 100,
           yield_risk = LOW, avg_yield = 0,
           var_95 = 2, var_99 = 0,
           max_1day_loss_95 = 2, max_1day_loss_99 = 0,
           recommendations = [ReduceConcentration ''AAA'' 100, AddHoldings 1]\<rparr>, 20000)"
  unfolding assess_portfolio_risk_def Let_def var_swing_95 var_swing_99 bindE_simps prod.case
  by (simp add: mean_def generate_risk_recommendations_def)

lemma var_quiet_50:
  "calculate_var quiet_source 0 [lone_holding 50] 0.95 = Inr (0, 10000)"
  "calculate_var quiet_source 10000 [lone_holding 50] 0.99 = Inr (0, 20000)"
  using var_quiet_95[of 50 0] var_quiet_99[of 50 10000] by simp_all

lemma var_quiet_70:
  "calculate_var quiet_source 0 [lone_holding 70] 0.95 = Inr (0, 10000)"
  "calculate_var quiet_source 10000 [lone_holding 70] 0.99 = Inr (0, 20000)"
  using var_quiet_95[of 70 0] var_quiet_99[of 70 10000] by simp_all

text \<open>
  Claim C3 as stated fails at both boundaries: a portfolio whose smallest sustainability
  score is exactly 50 is labelled HIGH (the claim says MEDIUM), and one whose smallest
  score is exactly 70 is labelled MEDIUM (the claim says LOW).
\<close>

theorem boundary_scores_counterexample:
  "assess_portfolio_risk quiet_source 0 [lone_holding 50] =
     Inr (\<lparr>overall_risk = HIGH, risk_score = 335 / 3,
           concentration_risk = HIGH, max_concentration = 100,
           diversification_score = 20 / 3,
           sustainability_risk = HIGH, avg_sustainability = 50,
           yield_risk = LOW, avg_yield = 0,
           var_95 = 0, var_99 = 0,
           max_1day_loss_95 = 0, max_1day_loss_99 = 0,
           recommendations = [ReduceConcentration ''AAA'' 100, AddHoldings 1,
             ReviewSustainability ''AAA'' 50]\<rparr>, 20000) \<and>
   assess_portfolio_risk quiet_source 0 [lone_holding 70] =
     Inr (\<lparr>overall_risk = HIGH, risk_score = 290 / 3,
           concentration_risk = HIGH, max_concentration = 100,
           diversification_score = 20 / 3,
           sustainability_risk = MEDIUM, avg_sustainability = 70,
           yield_risk = LOW, avg_yield = 0,
           var_95 = 0, var_99 = 0,
           max_1day_loss_95 = 0, max_1day_loss_99 = 0,
           recommendations = [ReduceConcentration ''AAA'' 100, AddHoldings 1]\<rparr>, 20000)"
  unfolding assess_portfolio_risk_def Let_def var_quiet_50 var_quiet_70 bindE_simps prod.case
  by (simp add: mean_def generate_risk_recommendations_def)

section \<open>The scan engine\<close>

lemma passes_filters_True:
  "passes_filters pf now sd fm dd fs = Inr True \<Longrightarrow> f \<in> set fs \<Longrightarrow>
   \<exists>v. get_filter_value pf now (criteria f) sd fm dd = Inr v \<and> v \<noteq> PNone \<and>
       apply_filter v (filter_value f) (operator f) = Inr True"
proof (induction fs)
  case Nil
  then show ?case by simp
next
  case (Cons g fs)
  from Cons.prems(1) obtain v where
    v: "get_filter_value pf now (criteria g) sd fm dd = Inr v" and nn: "v \<noteq> PNone"
    by (auto split: sum.splits if_splits)
  with Cons.prems(1) have ok: "apply_filter v (filter_value g) (operator g) = Inr True"
    and rest: "passes_filters pf now sd fm dd fs = Inr True"
    by (auto split: sum.splits if_splits)
  show ?case
  proof (cases "f = g")
    case True
    with v nn ok show ?thesis by blast
  next
    case False
    with Cons.prems(2) have "f \<in> set fs" by simp
    from Cons.IH[OF rest this] show ?thesis .
  qed
qed

lemma scan_symbol_Some:
  assumes "scan_symbol pf now pl fs s = Inr (Some r)"
  shows "\<exists>sd fm dd. get_stock_data pl s = Inr sd \<and> get_financial_metrics pl s = Inr fm \<and>
            get_dividend_history pl s = Inr dd \<and> sd \<noteq> [] \<and>
            passes_filters pf now sd fm dd fs = Inr True \<and>
            r_symbol r = s \<and>
            r_sector r = dict_get_default sd ''sector'' (PStr []) \<and>
            r_market_cap r = dict_get sd ''market_cap'' \<and>
            r_dividend_yield r = dict_get sd ''dividend_yield'' \<and>
            r_payout_ratio r = dict_get sd ''payout_ratio'' \<and>
            r_pe_ratio r = dict_get fm ''pe_ratio'' \<and>
            r_debt_to_equity r = dict_get fm ''debt_to_equity'' \<and>
            r_return_on_equity r = dict_get fm ''return_on_equity'' \<and>
            r_dividend_coverage_ratio r = dict_get fm ''dividend_coverage_ratio'' \<and>
            r_years_of_growth r = count_growth_years dd \<and>
            r_next_ex_dividend_date r = estimate_next_ex_dividend now dd \<and>
            r_scan_date r = now"
proof -
  from assms obtain sd fm dd where
    d: "get_stock_data pl s = Inr sd" "get_financial_metrics pl s = Inr fm"
       "get_dividend_history pl s = Inr dd"
    unfolding scan_symbol_def bindE_Inr_iff by blast
  with assms have ne: "sd \<noteq> []"
    unfolding scan_symbol_def by (auto split: if_splits)
  with assms d obtain ok where
    p: "passes_filters pf now sd fm dd fs = Inr ok"
    unfolding scan_symbol_def by (auto simp: bindE_Inr_iff)
  with assms d ne have ok: "ok"
    unfolding scan_symbol_def by (auto split: if_splits)
  with p have pt: "passes_filters pf now sd fm dd fs = Inr True" by simp
  from assms d ne pt obtain hs where
    "r = \<lparr>r_symbol = s,
          r_name = dict_get_default sd ''name'' (PStr []),
          r_sector = dict_get_default sd ''sector'' (PStr []),
          r_current_price = dict_get sd ''current_price'',
          r_market_cap = dict_get sd ''market_cap'',
          r_dividend_yield = dict_get sd ''dividend_yield'',
          r_payout_ratio = dict_get sd ''payout_ratio'',
          r_pe_ratio = dict_get fm ''pe_ratio'',
          r_debt_to_equity = dict_get fm ''debt_to_equity'',
          r_return_on_equity = dict_get fm ''return_on_equity'',
          r_dividend_coverage_ratio = dict_get fm ''dividend_coverage_ratio'',
          r_dividend_health_score = hs,
          r_last_dividend_amount = get_last_dividend_amount dd,
          r_dividend_growth_rate = get_avg_dividend_growth dd,
          r_years_of_growth = count_growth_years dd,
          r_next_ex_dividend_date = estimate_next_ex_dividend now dd,
          r_scan_date = now\<rparr>"
    unfolding scan_symbol_def by (auto simp: bindE_Inr_iff)
  then have
    "r_symbol r = s \<and>
     r_sector r = dict_get_default sd ''sector'' (PStr []) \<and>
     r_market_cap r = dict_get sd ''market_cap'' \<and>
     r_dividend_yield r = dict_get sd ''dividend_yield'' \<and>
     r_payout_ratio r = dict_get sd ''payout_ratio'' \<and>
     r_pe_ratio r = dict_get fm ''pe_ratio'' \<and>
     r_debt_to_equity r = dict_get fm ''debt_to_equity'' \<and>
     r_return_on_equity r = dict_get fm ''return_on_equity'' \<and>
     r_dividend_coverage_ratio r = dict_get fm ''dividend_coverage_ratio'' \<and>
     r_years_of_growth r = count_growth_years dd \<and>
     r_next_ex_dividend_date r = estimate_next_ex_dividend now dd \<and>
     r_scan_date r = now"
    by simp
  with d ne pt show ?thesis by blast
qed

lemma scan_loop_rows:
  "set (scan_loop pf now pl fs symbols results) \<subseteq>
     set results \<union> {r. \<exists>s \<in> set symbols. scan_symbol pf now pl fs s = Inr (Some r)}"
proof (induction symbols arbitrary: results)
  case Nil
  then show ?case by simp
next
  case (Cons s symbols)
  show ?case
  proof (cases "scan_symbol pf now pl fs s")
    case (Inl e)
    then show ?thesis using Cons.IH[of results] by auto
  next
    case (Inr res)
    show ?thesis
    proof (cases res)
      case None
      with Inr show ?thesis using Cons.IH[of results] by auto
    next
      case (Some r)
      with Inr show ?thesis using Cons.IH[of "results @ [r]"] by auto
    qed
  qed
qed









lemma py_in_not_list:
  "py_in a v = Inr b \<Longrightarrow> (case v of PStrList l \<Rightarrow> False | _ \<Rightarrow> True) \<Longrightarrow> \<not> is_member a v"
  by (cases v) (simp_all add: is_member_def)


lemma non_member_reads_nothing:
  "get_filter_value pf now (NonMember w) sd fm dd = Inr PNone"
  by (simp add: get_filter_value_def)







lemma invalid_filter_fails:
  assumes "invalid_filter f"
  shows "\<not> (\<exists>v. get_filter_value pf now (criteria f) sd fm dd = Inr v \<and> v \<noteq> PNone \<and>
              apply_filter v (filter_value f) (operator f) = Inr True)"
proof (cases "criteria f")
  case (Member c)
  with assms have op: "operator f \<notin> set [''gte'', ''lte'', ''eq'', ''in'', ''not_in'']"
    by (simp add: invalid_filter_def)
  then have "apply_filter v (filter_value f) (operator f) = Inr False" for v
    by (auto simp: apply_filter_def)
  then show ?thesis by simp
next
  case (NonMember w)
  then show ?thesis
    by (simp add: non_member_reads_nothing)
qed

lemma scan_symbol_invalid:
  assumes "f \<in> set fs" and "invalid_filter f"
  shows "scan_symbol pf now pl fs s \<noteq> Inr (Some r)"
proof
  assume "scan_symbol pf now pl fs s = Inr (Some r)"
  from scan_symbol_Some[OF this] obtain sd fm dd where
    "passes_filters pf now sd fm dd fs = Inr True" by blast
  from passes_filters_True[OF this assms(1)] invalid_filter_fails[OF assms(2)]
  show False by blast
qed

text \<open>
  Claim C2, as amended. When the configuration of a scan contains a filter whose operator
  is none of gte, lte, eq, in, not_in, or whose criteria is not a member of the
  enumeration, the scan raises no error: the filter counts as failed for every stock, and
  the scan returns the empty result.
\<close>

theorem invalid_filter_excludes_every_stock:
  assumes "f \<in> set (filters config)" and "invalid_filter f"
  shows "scan_stocks sort_values pf now pl symbols config = Inr []"
proof -
  have "set (scan_loop pf now pl (filters config) symbols []) \<subseteq> {}"
    using scan_loop_rows[of pf now pl "filters config" symbols "[]"]
      scan_symbol_invalid[OF assms]
    by auto
  then have "scan_loop pf now pl (filters config) symbols [] = []" by simp
  then show ?thesis by (simp add: scan_stocks_def)
qed

theorem invalid_filter_excludes_every_stock_witness:
  "string_tag_filter \<in> set (filters (sample_config string_tag_filter)) \<and>
   invalid_filter string_tag_filter \<and>
   scan_stocks keep_order no_float 0 sample_pipeline [''JNJ'', ''AAPL'', ''T'']
     (sample_config string_tag_filter) = Inr []"
  using invalid_filter_excludes_every_stock[of string_tag_filter
      "sample_config string_tag_filter" keep_order no_float 0 sample_pipeline
      "[''JNJ'', ''AAPL'', ''T'']"]
  by (simp add: sample_config_def invalid_filter_def string_tag_filter_def)

text \<open>
  Claim C2 as stated fails: a scan of three stocks with the operator gt, which is not a
  known operator, returns the empty result and raises nothing.
\<close>

theorem invalid_operator_counterexample:
  "scan_stocks keep_order no_float 0 sample_pipeline [''JNJ'', ''AAPL'', ''T'']
     (sample_config (yield_filter ''gt'')) = Inr []"
  by (simp add: scan_stocks_def scan_symbol_def sample_pipeline_def sample_config_def
      yield_filter_def get_filter_value_def apply_filter_def dict_get_def
      dict_get_default_def)

section \<open>The backtester\<close>

text \<open>
  Claim C9. At a rebalancing date where the trailing yield of no symbol reaches
  \<open>min_yield\<close>, the backtester makes no trade: the step returns the state it was given,
  so the cash, the holdings and the transaction log are those of the period before, and
  the loop goes on with the next date from that state.
\<close>

theorem no_qualifying_symbol_no_trade:
  assumes "\<forall>r \<in> set (current_data historical_data rebalance_date).
             hr_dividend_yield r < min_yield"
  shows "rebalance historical_data min_yield rebalance_date st = Inr st \<and>
         backtest_loop historical_data min_yield (rebalance_date # dates) st =
           backtest_loop historical_data min_yield dates st"
proof -
  from assms have
    "filter (\<lambda>r. hr_dividend_yield r \<ge> min_yield)
       (current_data historical_data rebalance_date) = []"
    by (auto simp: filter_empty_conv)
  then have "rebalance historical_data min_yield rebalance_date st = Inr st"
    by (simp add: rebalance_def)
  then show ?thesis by simp
qed

lemma current_data_swap_1:
  "current_data swap_history 1 =
     [\<lparr>hr_date = 1, hr_symbol = ''AAA'', hr_price = 100, hr_dividend_yield = 0.05,
       hr_dividend_amount = 0, hr_annual_dividend = 5\<rparr>,
      \<lparr>hr_date = 1, hr_symbol = ''BBB'', hr_price = 50, hr_dividend_yield = 0.01,
       hr_dividend_amount = 0, hr_annual_dividend = 0.5\<rparr>]"
  by (simp add: current_data_def swap_history_def)

lemma current_data_swap_2:
  "current_data swap_history 2 =
     [\<lparr>hr_date = 2, hr_symbol = ''AAA'', hr_price = 100, hr_dividend_yield = 0.01,
       hr_dividend_amount = 0, hr_annual_dividend = 1\<rparr>,
      \<lparr>hr_date = 2, hr_symbol = ''BBB'', hr_price = 50, hr_dividend_yield = 0.05,
       hr_dividend_amount = 0, hr_annual_dividend = 2.5\<rparr>]"
  by (simp add: current_data_def swap_history_def)

theorem no_qualifying_symbol_no_trade_witness:
  "list_all (\<lambda>r. hr_dividend_yield r < 0.1) (current_data swap_history 1) \<and>
   rebalance swap_history 0.1 1 invested_state = Inr invested_state"
  using no_qualifying_symbol_no_trade[of swap_history 1 "0.1" invested_state "[]"]
  by (simp add: current_data_swap_1)

lemma rebalance_swap_1:
  "rebalance swap_history 0.03 1 (initial_state 1000) =
     Inr \<lparr>portfolio = [(''AAA'', 10)], cash = 0,
          transactions = [\<lparr>t_date = 1, t_symbol = ''AAA'', t_action = BUY, t_shares = 10,
                            t_price = 100\<rparr>],
          portfolio_values = [\<lparr>v_date = 1, v_portfolio_value = 1000, v_cash = 0,
                                v_invested = 1000\<rparr>]\<rparr>"
  by (simp add: rebalance_def current_data_swap_1 initial_state_def price_of_def py_int_def
      Let_def)

lemma rebalance_swap_2:
  "rebalance swap_history 0.03 2
     \<lparr>portfolio = [(''AAA'', 10)], cash = 0,
      transactions = [\<lparr>t_date = 1, t_symbol = ''AAA'', t_action = BUY, t_shares = 10,
                        t_price = 100\<rparr>],
      portfolio_values = [\<lparr>v_date = 1, v_portfolio_value = 1000, v_cash = 0,
                            v_invested = 1000\<rparr>]\<rparr> =
     Inr \<lparr>portfolio = [(''BBB'', 0)], cash = 0,
          transactions = [\<lparr>t_date = 1, t_symbol = ''AAA'', t_action = BUY, t_shares = 10,
                            t_price = 100\<rparr>,
                          \<lparr>t_date = 2, t_symbol = ''BBB'', t_action = BUY, t_shares = 0,
                            t_price = 50\<rparr>],
          portfolio_values = [\<lparr>v_date = 1, v_portfolio_value = 1000, v_cash = 0,
                                v_invested = 1000\<rparr>,
                              \<lparr>v_date = 2, v_portfolio_value = 0, v_cash = 0,
                                v_invested = 0\<rparr>]\<rparr>"
  by (simp add: rebalance_def current_data_swap_2 price_of_def py_int_def Let_def)

text \<open>
  Claim C1. At every rebalancing date with a qualifying symbol, the portfolio value counts
  every held position and every holding is sold with a logged SELL transaction. The code
  looks the held symbols up among the qualifying stocks only. With a capital of 1000, the
  first date buys 10 shares of AAA at 100; at the second date AAA no longer qualifies while
  BBB does: the portfolio value is computed as 0, no SELL is logged, the 10 shares are
  dropped, and 0 shares of BBB are bought.
\<close>

theorem unqualified_holding_dropped_unsold:
  "backtest_loop swap_history 0.03 [1, 2] (initial_state 1000) =
     Inr \<lparr>portfolio = [(''BBB'', 0)], cash = 0,
          transactions = [\<lparr>t_date = 1, t_symbol = ''AAA'', t_action = BUY, t_shares = 10,
                            t_price = 100\<rparr>,
                          \<lparr>t_date = 2, t_symbol = ''BBB'', t_action = BUY, t_shares = 0,
                            t_price = 50\<rparr>],
          portfolio_values = [\<lparr>v_date = 1, v_portfolio_value = 1000, v_cash = 0,
                                v_invested = 1000\<rparr>,
                              \<lparr>v_date = 2, v_portfolio_value = 0, v_cash = 0,
                                v_invested = 0\<rparr>]\<rparr>"
  unfolding backtest_loop.simps rebalance_swap_1 rebalance_swap_2 sum.case
  by (rule refl)

end
